theory Spec2Isabelle
  imports Complex_Main
begin

section \<open>Data model\<close>

text \<open>
  The token ledger of the application lives in Firestore documents and is mutated by three
  services: \<open>RewardsService\<close>, \<open>BlockerService\<close> and \<open>WalletService\<close>.
  JavaScript values of type \<open>number\<close> that carry token quantities and minutes are modelled
  as exact reals (no rounding, no NaN, no infinities); millisecond time stamps and the
  integer configuration constants are modelled as integers. So every numeric argument of
  a call is a finite number, every comparison of the source is the comparison of reals,
  and \<open>tokensBalance || 0\<close> is the stored balance. The value NaN, for which the guards
  \<open>amount <= 0\<close> and \<open>currentBalance < amount\<close> are both false and which \<open>|| 0\<close> reads
  as 0, is outside the model, and so are the infinities.
\<close>

subsection \<open>Configuration (\<open>config/contsants.ts\<close>)\<close>

record Config =
  TOKENS_PER_HOUR :: int
  UNLOCK_COST_TOKENS :: int
  UNLOCK_DURATION_MINUTES :: int

text \<open>The values \<open>APP_CONFIG\<close> takes when the environment variables are not set.\<close>

definition APP_CONFIG :: Config where
  "APP_CONFIG = \<lparr>TOKENS_PER_HOUR = 10, UNLOCK_COST_TOKENS = 20, UNLOCK_DURATION_MINUTES = 60\<rparr>"

subsection \<open>Documents (\<open>types/index.ts\<close>)\<close>

datatype TransactionType = REWARD | UNLOCK | PURCHASE | INVESTMENT | WITHDRAWAL

record Metadata =
  appPackage :: "string option"
  appName :: "string option"
  minutes :: "real option"
  mmfId :: "string option"
  mmfName :: "string option"
  phoneNumber :: "string option"
  windowStart :: "int option"
  windowEnd :: "int option"

definition noMetadata :: Metadata where
  "noMetadata = \<lparr>appPackage = None, appName = None, minutes = None, mmfId = None,
     mmfName = None, phoneNumber = None, windowStart = None, windowEnd = None\<rparr>"

record Transaction =
  tx_uid :: string
  tx_type :: TransactionType
  tx_amount :: real
  tx_balance :: real
  tx_timestamp :: int
  tx_metadata :: Metadata

record UsageStats =
  us_packageName :: string
  us_appName :: string
  us_minutes :: real

record UnlockSession =
  packageName :: string
  unlockedAt :: int
  expiresAt :: int

record Investment =
  inv_uid :: string
  inv_mmfId :: string
  inv_mmfName :: string
  inv_amount :: real
  inv_units :: real
  inv_timestamp :: int

text \<open>
  The user document. The field \<open>unlockSessions\<close> is not part of the \<open>User\<close> interface and
  is absent until the first unlock writes it; \<open>mmfPreference\<close> is optional.
\<close>

record User =
  tokensBalance :: real
  lockedApps :: "string list"
  unlockSessions :: "UnlockSession list option"
  mmfPreference :: "string option"
  updatedAt :: int

subsection \<open>The persisted state\<close>

text \<open>
  One document per user in \<open>users\<close>; the \<open>transactions\<close> and \<open>investments\<close>
  subcollections as lists in commit order (every entry carries its \<open>uid\<close>); the
  \<open>processedWindows\<close> collection as a map from window id to \<open>processedAt\<close>; and
  the list of packages held by the native blocker module.
\<close>

record Store =
  users :: "string \<rightharpoonup> User"
  transactions :: "Transaction list"
  investments :: "Investment list"
  processedWindows :: "string \<rightharpoonup> int"
  nativeLockedApps :: "string list"

subsection \<open>The environment of one call\<close>

text \<open>
  Everything a call reads from outside the store: the clock, the platform, the native usage
  module, the simulated payment, and for each kind of asynchronous request whether it is
  rejected. A rejected request leaves the store as it was.
\<close>

record Env =
  now :: int
  serverTimestamp :: int
  platformAndroid :: bool
  usageModuleStats :: "UsageStats list option"
  stkPushSuccess :: bool
  markerReadFails :: bool
  markerWriteFails :: bool
  transactionFails :: bool
  userReadFails :: bool
  userUpdateFails :: bool
  nativeModuleFails :: bool

datatype error = UserNotFound | InsufficientTokenBalance | InsufficientBalance
  | FirestoreRejected | NativeModuleRejected

section \<open>\<open>api/firebase.ts\<close>\<close>

text \<open>
  \<open>firestoreHelpers.runTransaction\<close>: the update function runs on the store and its
  writes take effect together, or the request is rejected and nothing is written. An
  exception thrown by the update function aborts the transaction and is rethrown.
\<close>

definition runTransaction ::
  "Env \<Rightarrow> (Store \<Rightarrow> error + ('a \<times> Store)) \<Rightarrow> Store \<Rightarrow> (error + 'a) \<times> Store" where
  "runTransaction env updateFunction s =
     (if transactionFails env then (Inl FirestoreRejected, s)
      else case updateFunction s of
             Inl e \<Rightarrow> (Inl e, s)
           | Inr (a, s') \<Rightarrow> (Inr a, s'))"

section \<open>\<open>UsageService\<close>\<close>

definition getUsageStats :: "Env \<Rightarrow> int \<Rightarrow> int \<Rightarrow> UsageStats list" where
  "getUsageStats env startMillis endMillis =
     (if \<not> platformAndroid env then []
      else case usageModuleStats env of None \<Rightarrow> [] | Some stats \<Rightarrow> stats)"

definition getTotalMinutes :: "UsageStats list \<Rightarrow> real" where
  "getTotalMinutes stats = foldl (\<lambda>total stat. total + us_minutes stat) 0 stats"

section \<open>\<open>RewardsService\<close>\<close>

definition calculateTokens :: "Config \<Rightarrow> real \<Rightarrow> real" where
  "calculateTokens cfg totalMinutes =
     (let hours = \<lfloor>totalMinutes / 60\<rfloor>
      in of_int (hours * TOKENS_PER_HOUR cfg))"

text \<open>
  The decimal rendering of an integer in a template string (time stamps are integers far
  below \<open>10^21\<close>, where JavaScript switches to exponent notation).
\<close>

fun digitsOf :: "nat \<Rightarrow> string" where
  "digitsOf n =
     (if n < 10 then [''0123456789'' ! n]
      else digitsOf (n div 10) @ [''0123456789'' ! (n mod 10)])"

declare digitsOf.simps [simp del]

definition numberToString :: "int \<Rightarrow> string" where
  "numberToString i = (if i < 0 then ''-'' @ digitsOf (nat (- i)) else digitsOf (nat i))"

definition generateWindowId :: "string \<Rightarrow> int \<Rightarrow> int \<Rightarrow> string" where
  "generateWindowId uid startMillis endMillis =
     uid @ ''_'' @ numberToString startMillis @ ''_'' @ numberToString endMillis"

text \<open>A rejected read is caught and reported as "not processed".\<close>

definition isWindowProcessed :: "Env \<Rightarrow> string \<Rightarrow> Store \<Rightarrow> bool" where
  "isWindowProcessed env windowId s =
     (if markerReadFails env then False
      else processedWindows s windowId \<noteq> None)"

definition markWindowProcessed :: "Env \<Rightarrow> string \<Rightarrow> Store \<Rightarrow> (error + unit) \<times> Store" where
  "markWindowProcessed env windowId s =
     (if markerWriteFails env then (Inl FirestoreRejected, s)
      else (Inr (),
            s\<lparr>processedWindows := (processedWindows s)(windowId \<mapsto> serverTimestamp env)\<rparr>))"

record AwardResult =
  tokensAwarded :: real
  totalMinutes :: real

text \<open>The minutes of a window: the manual input when given, the measured usage otherwise.\<close>

definition resolveMinutes :: "Env \<Rightarrow> int \<Rightarrow> int \<Rightarrow> real option \<Rightarrow> real" where
  "resolveMinutes env startMillis endMillis manualMinutes =
     (case manualMinutes of
        Some m \<Rightarrow> m
      | None \<Rightarrow> getTotalMinutes (getUsageStats env startMillis endMillis))"

text \<open>The update function of the reward transaction.\<close>

definition awardTransaction ::
  "Env \<Rightarrow> string \<Rightarrow> int \<Rightarrow> int \<Rightarrow> real \<Rightarrow> real \<Rightarrow> Store \<Rightarrow> error + (unit \<times> Store)" where
  "awardTransaction env uid startMillis endMillis tokens mins s =
     (case users s uid of
        None \<Rightarrow> Inl UserNotFound
      | Some userData \<Rightarrow>
          let currentBalance = tokensBalance userData;
              newBalance = currentBalance + tokens;
              transactionData = \<lparr>tx_uid = uid, tx_type = REWARD, tx_amount = tokens,
                tx_balance = newBalance, tx_timestamp = now env,
                tx_metadata = noMetadata\<lparr>minutes := Some mins,
                  windowStart := Some startMillis, windowEnd := Some endMillis\<rparr>\<rparr>
          in Inr ((), s\<lparr>users := (users s)(uid \<mapsto>
                          userData\<lparr>tokensBalance := newBalance,
                                   updatedAt := serverTimestamp env\<rparr>),
                        transactions := transactions s @ [transactionData]\<rparr>))"

definition awardTokensForWindow ::
  "Config \<Rightarrow> Env \<Rightarrow> string \<Rightarrow> int \<Rightarrow> int \<Rightarrow> real option \<Rightarrow> Store
     \<Rightarrow> (error + AwardResult) \<times> Store" where
  "awardTokensForWindow cfg env uid startMillis endMillis manualMinutes s =
     (let windowId = generateWindowId uid startMillis endMillis;
          alreadyProcessed = isWindowProcessed env windowId s
      in if alreadyProcessed then (Inr \<lparr>tokensAwarded = 0, totalMinutes = 0\<rparr>, s)
         else
           let mins = resolveMinutes env startMillis endMillis manualMinutes;
               tokens = calculateTokens cfg mins
           in if tokens = 0 then
                (case markWindowProcessed env windowId s of
                   (Inl e, s') \<Rightarrow> (Inl e, s')
                 | (Inr _, s') \<Rightarrow> (Inr \<lparr>tokensAwarded = 0, totalMinutes = mins\<rparr>, s'))
              else
                (case runTransaction env
                        (awardTransaction env uid startMillis endMillis tokens mins) s of
                   (Inl e, s') \<Rightarrow> (Inl e, s')
                 | (Inr _, s1) \<Rightarrow>
                     (case markWindowProcessed env windowId s1 of
                        (Inl e, s2) \<Rightarrow> (Inl e, s2)
                      | (Inr _, s2) \<Rightarrow>
                          (Inr \<lparr>tokensAwarded = tokens, totalMinutes = mins\<rparr>, s2))))"

definition awardDailyTokens ::
  "Config \<Rightarrow> Env \<Rightarrow> string \<Rightarrow> Store \<Rightarrow> (error + AwardResult) \<times> Store" where
  "awardDailyTokens cfg env uid s =
     (let endMillis = now env;
          startMillis = endMillis - 24 * 60 * 60 * 1000
      in awardTokensForWindow cfg env uid startMillis endMillis None s)"

definition awardHourlyTokens ::
  "Config \<Rightarrow> Env \<Rightarrow> string \<Rightarrow> Store \<Rightarrow> (error + AwardResult) \<times> Store" where
  "awardHourlyTokens cfg env uid s =
     (let endMillis = now env;
          startMillis = endMillis - 60 * 60 * 1000
      in awardTokensForWindow cfg env uid startMillis endMillis None s)"

section \<open>\<open>BlockerService\<close>\<close>

text \<open>
  Result messages are template strings in the source; each template is a constructor here,
  with the values the template interpolates.
\<close>

datatype message =
    InsufficientTokens real real
  | UnlockedFor string int
  | FailedToUnlock
  | InvalidPhoneNumber
  | AmountMustBeGreaterThan0
  | PaymentSuccessful
  | PaymentFailed
  | SuccessfullyPurchased real
  | FailedToPurchase
  | InvestmentAmountMustBeGreaterThan0
  | InvalidUnitPrice
  | SuccessfullyInvested real string
  | FailedToInvest error
  | WithdrawalAmountMustBeGreaterThan0
  | SuccessfullyWithdrew real string
  | WithdrawalFailed error

record BalanceResult =
  success :: bool
  newBalance :: real
  message :: message

text \<open>\<open>xs || []\<close> for a field that may be absent.\<close>

definition orEmpty :: "'a list option \<Rightarrow> 'a list" where
  "orEmpty xs = (case xs of None \<Rightarrow> [] | Some ys \<Rightarrow> ys)"

text \<open>\<open>Array.from(new Set(xs))\<close>: the elements in the order of their first occurrence.\<close>

definition arrayFromSet :: "'a list \<Rightarrow> 'a list" where
  "arrayFromSet xs = foldl (\<lambda>acc x. if x \<in> set acc then acc else acc @ [x]) [] xs"

definition updateLockedApps :: "Env \<Rightarrow> string list \<Rightarrow> Store \<Rightarrow> (error + unit) \<times> Store" where
  "updateLockedApps env packageNames s =
     (if \<not> platformAndroid env then (Inr (), s)
      else if nativeModuleFails env then (Inl NativeModuleRejected, s)
      else (Inr (), s\<lparr>nativeLockedApps := packageNames\<rparr>))"

text \<open>
  The locked apps read back from the user document after a commit
  (\<open>userDoc.data()?.lockedApps || []\<close>); the read may be rejected.
\<close>

definition readLockedApps :: "Env \<Rightarrow> string \<Rightarrow> Store \<Rightarrow> error + string list" where
  "readLockedApps env uid s =
     (if userReadFails env then Inl FirestoreRejected
      else case users s uid of None \<Rightarrow> Inr [] | Some userData \<Rightarrow> Inr (lockedApps userData))"

definition syncLockedApps :: "Env \<Rightarrow> string \<Rightarrow> Store \<Rightarrow> (error + unit) \<times> Store" where
  "syncLockedApps env uid s =
     (case readLockedApps env uid s of
        Inl e \<Rightarrow> (Inl e, s)
      | Inr apps \<Rightarrow> updateLockedApps env apps s)"

text \<open>The update function of the unlock transaction.\<close>

definition unlockTransaction ::
  "Config \<Rightarrow> Env \<Rightarrow> string \<Rightarrow> string \<Rightarrow> string \<Rightarrow> Store \<Rightarrow> error + (BalanceResult \<times> Store)" where
  "unlockTransaction cfg env uid pkgName app s =
     (let unlockCost = of_int (UNLOCK_COST_TOKENS cfg);
          unlockDurationMs = UNLOCK_DURATION_MINUTES cfg * 60 * 1000
      in case users s uid of
           None \<Rightarrow> Inl UserNotFound
         | Some userData \<Rightarrow>
             let currentBalance = tokensBalance userData
             in if currentBalance < unlockCost then
                  Inr (\<lparr>success = False, newBalance = currentBalance,
                        message = InsufficientTokens unlockCost currentBalance\<rparr>, s)
                else
                  let balanceAfter = currentBalance - unlockCost;
                      nowMs = now env;
                      expiry = nowMs + unlockDurationMs;
                      sessions = orEmpty (unlockSessions userData);
                      updatedLockedApps = filter (\<lambda>pkg. pkg \<noteq> pkgName) (lockedApps userData);
                      newSession = \<lparr>packageName = pkgName, unlockedAt = nowMs,
                                    expiresAt = expiry\<rparr>;
                      activeSessions = filter (\<lambda>x. expiresAt x > nowMs) sessions @ [newSession];
                      transactionData = \<lparr>tx_uid = uid, tx_type = UNLOCK,
                        tx_amount = - unlockCost, tx_balance = balanceAfter,
                        tx_timestamp = nowMs,
                        tx_metadata = noMetadata\<lparr>appPackage := Some pkgName,
                                                  appName := Some app\<rparr>\<rparr>
                  in Inr (\<lparr>success = True, newBalance = balanceAfter,
                           message = UnlockedFor app (UNLOCK_DURATION_MINUTES cfg)\<rparr>,
                          s\<lparr>users := (users s)(uid \<mapsto>
                               userData\<lparr>tokensBalance := balanceAfter,
                                        lockedApps := updatedLockedApps,
                                        unlockSessions := Some activeSessions,
                                        updatedAt := serverTimestamp env\<rparr>),
                            transactions := transactions s @ [transactionData]\<rparr>))"

definition unlockApp ::
  "Config \<Rightarrow> Env \<Rightarrow> string \<Rightarrow> string \<Rightarrow> string \<Rightarrow> Store \<Rightarrow> BalanceResult \<times> Store" where
  "unlockApp cfg env uid pkgName app s =
     (let failed = \<lparr>success = False, newBalance = 0, message = FailedToUnlock\<rparr>
      in case runTransaction env (unlockTransaction cfg env uid pkgName app) s of
           (Inl e, s') \<Rightarrow> (failed, s')
         | (Inr result, s1) \<Rightarrow>
             if success result then
               (case syncLockedApps env uid s1 of
                  (Inl e, s2) \<Rightarrow> (failed, s2)
                | (Inr _, s2) \<Rightarrow> (result, s2))
             else (result, s1))"

text \<open>
  \<open>relockExpiredSessions\<close> reads the document and updates it outside a transaction; every
  exception is caught and logged, and the promise resolves.
\<close>

definition relockExpiredSessions :: "Env \<Rightarrow> string \<Rightarrow> Store \<Rightarrow> (error + unit) \<times> Store" where
  "relockExpiredSessions env uid s =
     (if userReadFails env then (Inr (), s)
      else case users s uid of
             None \<Rightarrow> (Inr (), s)
           | Some userData \<Rightarrow>
               let sessions = orEmpty (unlockSessions userData);
                   nowMs = now env;
                   expiredSessions = filter (\<lambda>x. expiresAt x \<le> nowMs) sessions;
                   activeSessions = filter (\<lambda>x. expiresAt x > nowMs) sessions
               in if length expiredSessions = 0 then (Inr (), s)
                  else
                    let expiredPackages = map packageName expiredSessions;
                        updatedLockedApps =
                          arrayFromSet (lockedApps userData @ expiredPackages)
                    in if userUpdateFails env then (Inr (), s)
                       else
                         let s1 = s\<lparr>users := (users s)(uid \<mapsto>
                                    userData\<lparr>lockedApps := updatedLockedApps,
                                             unlockSessions := Some activeSessions,
                                             updatedAt := serverTimestamp env\<rparr>)\<rparr>
                         in (Inr (), snd (updateLockedApps env updatedLockedApps s1)))"

text \<open>
  The two requests of \<open>relockExpiredSessions\<close>, one after the other in the source: the
  read of the user document, and the rest of the function, which computes the new lists
  from the document it has read and sends them as one update of the stored document
  (\<open>update\<close> sets the given fields and leaves the others as they are stored), then pushes
  to the native module.
\<close>

definition relockGet :: "Env \<Rightarrow> string \<Rightarrow> Store \<Rightarrow> error + User option" where
  "relockGet env uid s =
     (if userReadFails env then Inl FirestoreRejected else Inr (users s uid))"

definition relockUpdate ::
  "Env \<Rightarrow> string \<Rightarrow> error + User option \<Rightarrow> Store \<Rightarrow> (error + unit) \<times> Store" where
  "relockUpdate env uid userDoc s =
     (case userDoc of
        Inl e \<Rightarrow> (Inr (), s)
      | Inr None \<Rightarrow> (Inr (), s)
      | Inr (Some userData) \<Rightarrow>
          let sessions = orEmpty (unlockSessions userData);
              nowMs = now env;
              expiredSessions = filter (\<lambda>x. expiresAt x \<le> nowMs) sessions;
              activeSessions = filter (\<lambda>x. expiresAt x > nowMs) sessions
          in if length expiredSessions = 0 then (Inr (), s)
             else
               let expiredPackages = map packageName expiredSessions;
                   updatedLockedApps =
                     arrayFromSet (lockedApps userData @ expiredPackages)
               in if userUpdateFails env then (Inr (), s)
                  else
                    (case users s uid of
                       None \<Rightarrow> (Inr (), s)
                     | Some current \<Rightarrow>
                         let s1 = s\<lparr>users := (users s)(uid \<mapsto>
                                    current\<lparr>lockedApps := updatedLockedApps,
                                            unlockSessions := Some activeSessions,
                                            updatedAt := serverTimestamp env\<rparr>)\<rparr>
                         in (Inr (), snd (updateLockedApps env updatedLockedApps s1))))"

text \<open>
  The four lock-set edits share one shape: a transaction that rewrites \<open>lockedApps\<close>,
  then the push to the native module; every exception is rethrown.
\<close>

definition lockSetEdit ::
  "Env \<Rightarrow> string \<Rightarrow> (Store \<Rightarrow> error + (unit \<times> Store)) \<Rightarrow> Store \<Rightarrow> (error + unit) \<times> Store" where
  "lockSetEdit env uid updateFunction s =
     (case runTransaction env updateFunction s of
        (Inl e, s') \<Rightarrow> (Inl e, s')
      | (Inr _, s1) \<Rightarrow> syncLockedApps env uid s1)"

definition lockTransaction :: "Env \<Rightarrow> string \<Rightarrow> string \<Rightarrow> Store \<Rightarrow> error + (unit \<times> Store)" where
  "lockTransaction env uid pkgName s =
     (case users s uid of
        None \<Rightarrow> Inl UserNotFound
      | Some userData \<Rightarrow>
          if pkgName \<notin> set (lockedApps userData) then
            Inr ((), s\<lparr>users := (users s)(uid \<mapsto>
                     userData\<lparr>lockedApps := lockedApps userData @ [pkgName],
                              updatedAt := serverTimestamp env\<rparr>)\<rparr>)
          else Inr ((), s))"

definition lockApp :: "Env \<Rightarrow> string \<Rightarrow> string \<Rightarrow> Store \<Rightarrow> (error + unit) \<times> Store" where
  "lockApp env uid pkgName s = lockSetEdit env uid (lockTransaction env uid pkgName) s"

definition rewriteLockedApps ::
  "Env \<Rightarrow> string \<Rightarrow> (string list \<Rightarrow> string list) \<Rightarrow> Store \<Rightarrow> error + (unit \<times> Store)" where
  "rewriteLockedApps env uid f s =
     (case users s uid of
        None \<Rightarrow> Inl UserNotFound
      | Some userData \<Rightarrow>
          Inr ((), s\<lparr>users := (users s)(uid \<mapsto>
                   userData\<lparr>lockedApps := f (lockedApps userData),
                            updatedAt := serverTimestamp env\<rparr>)\<rparr>))"

definition unlockAppPermanently ::
  "Env \<Rightarrow> string \<Rightarrow> string \<Rightarrow> Store \<Rightarrow> (error + unit) \<times> Store" where
  "unlockAppPermanently env uid pkgName s =
     lockSetEdit env uid
       (rewriteLockedApps env uid (filter (\<lambda>pkg. pkg \<noteq> pkgName))) s"

definition lockMultipleApps ::
  "Env \<Rightarrow> string \<Rightarrow> string list \<Rightarrow> Store \<Rightarrow> (error + unit) \<times> Store" where
  "lockMultipleApps env uid packageNames s =
     lockSetEdit env uid
       (rewriteLockedApps env uid (\<lambda>existing. arrayFromSet (existing @ packageNames))) s"

definition unlockMultipleAppsPermanently ::
  "Env \<Rightarrow> string \<Rightarrow> string list \<Rightarrow> Store \<Rightarrow> (error + unit) \<times> Store" where
  "unlockMultipleAppsPermanently env uid packageNames s =
     lockSetEdit env uid
       (rewriteLockedApps env uid (filter (\<lambda>pkg. pkg \<notin> set packageNames))) s"

section \<open>\<open>WalletService\<close>\<close>

text \<open>
  \<open>simulateStkPush\<close> succeeds or fails at random; the environment fixes the draw. Its
  transaction id is not used by any caller and is left out.
\<close>

definition simulateStkPush :: "Env \<Rightarrow> string \<Rightarrow> real \<Rightarrow> bool \<times> message" where
  "simulateStkPush env phone amount =
     (if stkPushSuccess env then (True, PaymentSuccessful) else (False, PaymentFailed))"

text \<open>The update function of the purchase transaction.\<close>

definition purchaseTransaction ::
  "Env \<Rightarrow> string \<Rightarrow> real \<Rightarrow> string \<Rightarrow> Store \<Rightarrow> error + (real \<times> Store)" where
  "purchaseTransaction env uid tokenAmount phone s =
     (case users s uid of
        None \<Rightarrow> Inl UserNotFound
      | Some userData \<Rightarrow>
          let currentBalance = tokensBalance userData;
              balanceAfter = currentBalance + tokenAmount;
              transactionData = \<lparr>tx_uid = uid, tx_type = PURCHASE, tx_amount = tokenAmount,
                tx_balance = balanceAfter, tx_timestamp = now env,
                tx_metadata = noMetadata\<lparr>phoneNumber := Some phone\<rparr>\<rparr>
          in Inr (balanceAfter,
                  s\<lparr>users := (users s)(uid \<mapsto>
                       userData\<lparr>tokensBalance := balanceAfter,
                                updatedAt := serverTimestamp env\<rparr>),
                    transactions := transactions s @ [transactionData]\<rparr>))"

definition purchaseTokens ::
  "Env \<Rightarrow> string \<Rightarrow> real \<Rightarrow> string \<Rightarrow> Store \<Rightarrow> BalanceResult \<times> Store" where
  "purchaseTokens env uid tokenAmount phone s =
     (let amount = tokenAmount
      in if phone = [] \<or> length phone < 10 then
           (\<lparr>success = False, newBalance = 0, message = InvalidPhoneNumber\<rparr>, s)
         else if tokenAmount \<le> 0 then
           (\<lparr>success = False, newBalance = 0, message = AmountMustBeGreaterThan0\<rparr>, s)
         else
           let paymentResult = simulateStkPush env phone amount
           in if \<not> fst paymentResult then
                (\<lparr>success = False, newBalance = 0, message = snd paymentResult\<rparr>, s)
              else
                (case runTransaction env (purchaseTransaction env uid tokenAmount phone) s of
                   (Inl e, s') \<Rightarrow>
                     (\<lparr>success = False, newBalance = 0, message = FailedToPurchase\<rparr>, s')
                 | (Inr result, s') \<Rightarrow>
                     (\<lparr>success = True, newBalance = result,
                       message = SuccessfullyPurchased tokenAmount\<rparr>, s')))"

record InvestResult =
  invSuccess :: bool
  invMessage :: message
  investmentId :: "nat option"

text \<open>The truthiness of an optional string: absent and empty are both false.\<close>

definition truthy :: "string option \<Rightarrow> bool" where
  "truthy p = (case p of None \<Rightarrow> False | Some str \<Rightarrow> str \<noteq> [])"

text \<open>
  The update function of the investment transaction. The identifier Firestore generates
  for the new investment document is represented by its position in the collection.
\<close>

definition investTransaction ::
  "Env \<Rightarrow> string \<Rightarrow> string \<Rightarrow> string \<Rightarrow> real \<Rightarrow> real \<Rightarrow> string option \<Rightarrow> Store
     \<Rightarrow> error + (nat \<times> Store)" where
  "investTransaction env uid fundId fundName tokenAmount units phone s =
     (case users s uid of
        None \<Rightarrow> Inl UserNotFound
      | Some userData \<Rightarrow>
          let currentBalance = tokensBalance userData
          in if \<not> truthy phone \<and> currentBalance < tokenAmount then
               Inl InsufficientTokenBalance
             else
               let balanceAfter =
                     (if truthy phone then currentBalance else currentBalance - tokenAmount);
                   investmentData = \<lparr>inv_uid = uid, inv_mmfId = fundId,
                     inv_mmfName = fundName, inv_amount = tokenAmount, inv_units = units,
                     inv_timestamp = now env\<rparr>;
                   transactionData = \<lparr>tx_uid = uid, tx_type = INVESTMENT,
                     tx_amount = (if truthy phone then tokenAmount else - tokenAmount),
                     tx_balance = balanceAfter, tx_timestamp = now env,
                     tx_metadata = noMetadata\<lparr>mmfId := Some fundId,
                       mmfName := Some fundName, phoneNumber := phone\<rparr>\<rparr>
               in Inr (length (investments s),
                       s\<lparr>users := (users s)(uid \<mapsto>
                            userData\<lparr>tokensBalance := balanceAfter,
                                     mmfPreference := Some fundId,
                                     updatedAt := serverTimestamp env\<rparr>),
                         investments := investments s @ [investmentData],
                         transactions := transactions s @ [transactionData]\<rparr>))"

definition investInMMF ::
  "Env \<Rightarrow> string \<Rightarrow> string \<Rightarrow> string \<Rightarrow> real \<Rightarrow> real \<Rightarrow> string option \<Rightarrow> Store
     \<Rightarrow> InvestResult \<times> Store" where
  "investInMMF env uid fundId fundName tokenAmount unitPrice phone s =
     (if tokenAmount \<le> 0 then
        (\<lparr>invSuccess = False, invMessage = InvestmentAmountMustBeGreaterThan0,
          investmentId = None\<rparr>, s)
      else if unitPrice \<le> 0 then
        (\<lparr>invSuccess = False, invMessage = InvalidUnitPrice, investmentId = None\<rparr>, s)
      else
        let units = tokenAmount / unitPrice
        in if truthy phone \<and> \<not> fst (simulateStkPush env (orEmpty phone) tokenAmount) then
             (\<lparr>invSuccess = False,
               invMessage = snd (simulateStkPush env (orEmpty phone) tokenAmount),
               investmentId = None\<rparr>, s)
           else
             (case runTransaction env
                     (investTransaction env uid fundId fundName tokenAmount units phone) s of
                (Inl e, s') \<Rightarrow>
                  (\<lparr>invSuccess = False, invMessage = FailedToInvest e,
                    investmentId = None\<rparr>, s')
              | (Inr newId, s') \<Rightarrow>
                  (\<lparr>invSuccess = True,
                    invMessage = SuccessfullyInvested tokenAmount fundName,
                    investmentId = Some newId\<rparr>, s')))"

text \<open>The update function of the withdrawal transaction.\<close>

definition withdrawTransaction ::
  "Env \<Rightarrow> string \<Rightarrow> real \<Rightarrow> string \<Rightarrow> Store \<Rightarrow> error + (real \<times> Store)" where
  "withdrawTransaction env uid amount phone s =
     (case users s uid of
        None \<Rightarrow> Inl UserNotFound
      | Some userData \<Rightarrow>
          let currentBalance = tokensBalance userData
          in if currentBalance < amount then Inl InsufficientBalance
             else
               let balanceAfter = currentBalance - amount;
                   transactionData = \<lparr>tx_uid = uid, tx_type = WITHDRAWAL,
                     tx_amount = - amount, tx_balance = balanceAfter,
                     tx_timestamp = now env,
                     tx_metadata = noMetadata\<lparr>phoneNumber := Some phone\<rparr>\<rparr>
               in Inr (balanceAfter,
                       s\<lparr>users := (users s)(uid \<mapsto>
                            userData\<lparr>tokensBalance := balanceAfter,
                                     updatedAt := serverTimestamp env\<rparr>),
                         transactions := transactions s @ [transactionData]\<rparr>))"

definition withdrawTokens ::
  "Env \<Rightarrow> string \<Rightarrow> real \<Rightarrow> string \<Rightarrow> Store \<Rightarrow> BalanceResult \<times> Store" where
  "withdrawTokens env uid amount phone s =
     (if amount \<le> 0 then
        (\<lparr>success = False, newBalance = 0,
          message = WithdrawalAmountMustBeGreaterThan0\<rparr>, s)
      else if phone = [] \<or> length phone < 10 then
        (\<lparr>success = False, newBalance = 0, message = InvalidPhoneNumber\<rparr>, s)
      else
        (case runTransaction env (withdrawTransaction env uid amount phone) s of
           (Inl e, s') \<Rightarrow>
             (\<lparr>success = False, newBalance = 0, message = WithdrawalFailed e\<rparr>, s')
         | (Inr result, s') \<Rightarrow>
             (\<lparr>success = True, newBalance = result,
               message = SuccessfullyWithdrew amount phone\<rparr>, s')))"

section \<open>Sequences of calls\<close>

text \<open>The public entry points that write to the store, with their arguments.\<close>

datatype Call =
    AwardTokensForWindow string int int "real option"
  | AwardDailyTokens string
  | AwardHourlyTokens string
  | PurchaseTokens string real string
  | UnlockApp string string string
  | RelockExpiredSessions string
  | LockApp string string
  | UnlockAppPermanently string string
  | LockMultipleApps string "string list"
  | UnlockMultipleAppsPermanently string "string list"
  | InvestInMMF string string string real real "string option"
  | WithdrawTokens string real string

text \<open>The store after one call made in a given environment.\<close>

fun exec :: "Config \<Rightarrow> Env \<times> Call \<Rightarrow> Store \<Rightarrow> Store" where
  "exec cfg (env, AwardTokensForWindow uid a b m) s =
     snd (awardTokensForWindow cfg env uid a b m s)"
| "exec cfg (env, AwardDailyTokens uid) s = snd (awardDailyTokens cfg env uid s)"
| "exec cfg (env, AwardHourlyTokens uid) s = snd (awardHourlyTokens cfg env uid s)"
| "exec cfg (env, PurchaseTokens uid n phone) s = snd (purchaseTokens env uid n phone s)"
| "exec cfg (env, UnlockApp uid pkg app) s = snd (unlockApp cfg env uid pkg app s)"
| "exec cfg (env, RelockExpiredSessions uid) s = snd (relockExpiredSessions env uid s)"
| "exec cfg (env, LockApp uid pkg) s = snd (lockApp env uid pkg s)"
| "exec cfg (env, UnlockAppPermanently uid pkg) s = snd (unlockAppPermanently env uid pkg s)"
| "exec cfg (env, LockMultipleApps uid pkgs) s = snd (lockMultipleApps env uid pkgs s)"
| "exec cfg (env, UnlockMultipleAppsPermanently uid pkgs) s =
     snd (unlockMultipleAppsPermanently env uid pkgs s)"
| "exec cfg (env, InvestInMMF uid fundId fundName n price phone) s =
     snd (investInMMF env uid fundId fundName n price phone s)"
| "exec cfg (env, WithdrawTokens uid n phone) s = snd (withdrawTokens env uid n phone s)"

definition execAll :: "Config \<Rightarrow> (Env \<times> Call) list \<Rightarrow> Store \<Rightarrow> Store" where
  "execAll cfg calls s = foldl (\<lambda>st c. exec cfg c st) s calls"

section \<open>Properties of the ledger\<close>

definition balanceOf :: "Store \<Rightarrow> string \<Rightarrow> real option" where
  "balanceOf s uid = map_option tokensBalance (users s uid)"



text \<open>
  An investment paid for by a simulated M-Pesa payment: the entry that \<open>investInMMF\<close>
  writes when it is given a phone number.
\<close>

definition externallyFunded :: "Transaction \<Rightarrow> bool" where
  "externallyFunded t = (tx_type t = INVESTMENT \<and> truthy (phoneNumber (tx_metadata t)))"

text \<open>The minutes a reward call resolves; no minutes for the other calls.\<close>

fun rewardMinutes :: "Env \<times> Call \<Rightarrow> real" where
  "rewardMinutes (env, AwardTokensForWindow uid a b m) = resolveMinutes env a b m"
| "rewardMinutes (env, AwardDailyTokens uid) =
     resolveMinutes env (now env - 24 * 60 * 60 * 1000) (now env) None"
| "rewardMinutes (env, AwardHourlyTokens uid) =
     resolveMinutes env (now env - 60 * 60 * 1000) (now env) None"
| "rewardMinutes (env, c) = 0"

text \<open>
  The change of the balance that goes with an entry: its amount, except for an externally
  funded investment, which is recorded with a positive amount and leaves the balance alone.
\<close>

definition ledgerEffect :: "Transaction \<Rightarrow> real" where
  "ledgerEffect t = (if externallyFunded t then 0 else tx_amount t)"

text \<open>
  One call as seen by the ledger: either no entry is written and no balance changes, or
  one entry \<open>t\<close> is appended and the balance of its user moves by the effect of \<open>t\<close>,
  where the new balance is not negative, or the effect is not negative, or the effect is
  the reward \<open>r\<close> of the call.
\<close>

definition ledgerStep :: "real \<Rightarrow> Store \<Rightarrow> Store \<Rightarrow> bool" where
  "ledgerStep r s s' \<longleftrightarrow>
     (transactions s' = transactions s \<and> (\<forall>v. balanceOf s' v = balanceOf s v))
     \<or> (\<exists>t b. transactions s' = transactions s @ [t]
           \<and> balanceOf s (tx_uid t) = Some b
           \<and> balanceOf s' (tx_uid t) = Some (b + ledgerEffect t)
           \<and> (\<forall>v. v \<noteq> tx_uid t \<longrightarrow> balanceOf s' v = balanceOf s v)
           \<and> (0 \<le> b + ledgerEffect t \<or> 0 \<le> ledgerEffect t \<or> ledgerEffect t = r))"

section \<open>Interleaved calls\<close>

text \<open>
  The requests of one \<open>unlockApp\<close> call, one step each: the transaction, the read of the
  locked apps, the push to the native module. A Firestore transaction is one step: the
  library applies the update function to the document as stored when it commits, all
  writes together, and runs it again when the document has changed in between.
\<close>

datatype UnlockThread =
    AtTransaction
  | AtRead BalanceResult
  | AtPush BalanceResult "string list"
  | Finished BalanceResult

fun unlockStep ::
  "Config \<Rightarrow> Env \<Rightarrow> string \<Rightarrow> string \<Rightarrow> string \<Rightarrow> UnlockThread \<Rightarrow> Store
     \<Rightarrow> UnlockThread \<times> Store" where
  "unlockStep cfg env uid pkgName app AtTransaction s =
     (case runTransaction env (unlockTransaction cfg env uid pkgName app) s of
        (Inl e, s') \<Rightarrow>
          (Finished \<lparr>success = False, newBalance = 0, message = FailedToUnlock\<rparr>, s')
      | (Inr result, s1) \<Rightarrow>
          if success result then (AtRead result, s1) else (Finished result, s1))"
| "unlockStep cfg env uid pkgName app (AtRead result) s =
     (case readLockedApps env uid s of
        Inl e \<Rightarrow> (Finished \<lparr>success = False, newBalance = 0, message = FailedToUnlock\<rparr>, s)
      | Inr apps \<Rightarrow> (AtPush result apps, s))"
| "unlockStep cfg env uid pkgName app (AtPush result apps) s =
     (case updateLockedApps env apps s of
        (Inl e, s') \<Rightarrow>
          (Finished \<lparr>success = False, newBalance = 0, message = FailedToUnlock\<rparr>, s')
      | (Inr _, s') \<Rightarrow> (Finished result, s'))"
| "unlockStep cfg env uid pkgName app (Finished result) s = (Finished result, s)"

fun runSchedule ::
  "('a \<Rightarrow> Store \<Rightarrow> 'a \<times> Store) \<Rightarrow> ('b \<Rightarrow> Store \<Rightarrow> 'b \<times> Store) \<Rightarrow> bool list
     \<Rightarrow> 'a \<times> 'b \<times> Store \<Rightarrow> 'a \<times> 'b \<times> Store" where
  "runSchedule f g [] st = st"
| "runSchedule f g (True # sched) (a, b, s) =
     (case f a s of (a', s') \<Rightarrow> runSchedule f g sched (a', b, s'))"
| "runSchedule f g (False # sched) (a, b, s) =
     (case g b s of (b', s') \<Rightarrow> runSchedule f g sched (a, b', s'))"

text \<open>The result a thread holds once its transaction is over.\<close>

fun threadResult :: "UnlockThread \<Rightarrow> BalanceResult option" where
  "threadResult AtTransaction = None"
| "threadResult (AtRead r) = Some r"
| "threadResult (AtPush r apps) = Some r"
| "threadResult (Finished r) = Some r"

text \<open>
  Two concurrent unlocks on a balance \<open>b0\<close> that covers one cost: the first transaction to
  commit pays, the other is refused.
\<close>

definition paidOnce :: "real \<Rightarrow> real \<Rightarrow> BalanceResult \<Rightarrow> bool" where
  "paidOnce cost b0 r \<longleftrightarrow> success r \<and> newBalance r = b0 - cost"

definition refusedOnce :: "real \<Rightarrow> real \<Rightarrow> BalanceResult \<Rightarrow> bool" where
  "refusedOnce cost b0 r \<longleftrightarrow>
     \<not> success r \<and> newBalance r = b0 - cost \<and> message r = InsufficientTokens cost (b0 - cost)"

definition raceInv ::
  "real \<Rightarrow> real \<Rightarrow> string \<Rightarrow> UnlockThread \<Rightarrow> UnlockThread \<Rightarrow> Store \<Rightarrow> bool" where
  "raceInv cost b0 uid ta tb s \<longleftrightarrow>
     (case (threadResult ta, threadResult tb) of
        (None, None) \<Rightarrow> balanceOf s uid = Some b0
      | (Some ra, None) \<Rightarrow> paidOnce cost b0 ra \<and> balanceOf s uid = Some (b0 - cost)
      | (None, Some rb) \<Rightarrow> paidOnce cost b0 rb \<and> balanceOf s uid = Some (b0 - cost)
      | (Some ra, Some rb) \<Rightarrow>
          (paidOnce cost b0 ra \<and> refusedOnce cost b0 rb
           \<or> refusedOnce cost b0 ra \<and> paidOnce cost b0 rb)
          \<and> balanceOf s uid = Some (b0 - cost))"

definition faultFree :: "Env \<Rightarrow> bool" where
  "faultFree env \<longleftrightarrow>
     \<not> transactionFails env \<and> \<not> userReadFails env
     \<and> \<not> (platformAndroid env \<and> nativeModuleFails env)"

section \<open>Sample stores and environments\<close>

definition newUser :: "real \<Rightarrow> User" where
  "newUser b = \<lparr>tokensBalance = b, lockedApps = [], unlockSessions = None,
     mmfPreference = None, updatedAt = 0\<rparr>"

definition storeWith :: "User \<Rightarrow> Store" where
  "storeWith u = \<lparr>users = [''u1'' \<mapsto> u], transactions = [], investments = [],
     processedWindows = Map.empty, nativeLockedApps = []\<rparr>"

text \<open>An environment in which no request is rejected.\<close>

definition env0 :: Env where
  "env0 = \<lparr>now = 1000, serverTimestamp = 1001, platformAndroid = True,
     usageModuleStats = None, stkPushSuccess = True, markerReadFails = False,
     markerWriteFails = False, transactionFails = False, userReadFails = False,
     userUpdateFails = False, nativeModuleFails = False\<rparr>"

text \<open>A store in which the window \<open>[0, 3600000)\<close> of user \<open>u1\<close> is already marked.\<close>

definition storeMarked :: Store where
  "storeMarked = (storeWith (newUser 0))
     \<lparr>processedWindows := [generateWindowId ''u1'' 0 3600000 \<mapsto> 7]\<rparr>"


text \<open>A user with 100 tokens and one locked package.\<close>

definition userLocked :: User where
  "userLocked = (newUser 100)\<lparr>lockedApps := [''com.x'']\<rparr>"

text \<open>
  A user with 100 tokens, \<open>com.y\<close> locked, and a session for \<open>com.x\<close> that expired at
  time 500.
\<close>

definition userRace :: User where
  "userRace = (newUser 100)
     \<lparr>lockedApps := [''com.y''],
      unlockSessions := Some [\<lparr>packageName = ''com.x'', unlockedAt = 0, expiresAt = 500\<rparr>]\<rparr>"


section \<open>Theorems\<close>

subsection \<open>Idempotent reward crediting\<close>

text \<open>
  When the read of the marker is not rejected, a marked window is left alone: the call
  returns \<open>{tokensAwarded: 0, totalMinutes: 0}\<close> and the store is as it was; and after a
  call that returned normally the window is marked.
\<close>

lemma creditWindow_marked_noop:
  "(processedWindows s (generateWindowId uid a b) \<noteq> None \<and> \<not> markerReadFails env
      \<longrightarrow> awardTokensForWindow cfg env uid a b m s
            = (Inr \<lparr>tokensAwarded = 0, totalMinutes = 0\<rparr>, s))
   \<and> (fst (awardTokensForWindow cfg env uid a b m s) = Inr r \<and> \<not> markerReadFails env'
      \<longrightarrow> awardTokensForWindow cfg env' uid a b m (snd (awardTokensForWindow cfg env uid a b m s))
            = (Inr \<lparr>tokensAwarded = 0, totalMinutes = 0\<rparr>,
               snd (awardTokensForWindow cfg env uid a b m s)))"
proof -
  have marked: "awardTokensForWindow cfg e uid a b m st
                  = (Inr \<lparr>tokensAwarded = 0, totalMinutes = 0\<rparr>, st)"
    if "processedWindows st (generateWindowId uid a b) \<noteq> None" "\<not> markerReadFails e"
    for e st
    using that by (simp add: awardTokensForWindow_def isWindowProcessed_def)
  have written: "processedWindows (snd (awardTokensForWindow cfg env uid a b m s))
                   (generateWindowId uid a b) \<noteq> None"
    if "fst (awardTokensForWindow cfg env uid a b m s) = Inr r"
    using that
    by (auto simp: awardTokensForWindow_def isWindowProcessed_def markWindowProcessed_def
          runTransaction_def awardTransaction_def Let_def
          split: if_splits option.splits sum.splits prod.splits)
  show ?thesis using marked written by blast
qed

text \<open>
  Claim C1: a call for a window whose idempotency marker exists returns \<open>{0, 0}\<close> and
  touches nothing. The code breaks it. Here the marker of the window exists and the read
  of the marker is rejected: \<open>isWindowProcessed\<close> catches the rejection and answers
  false, and \<open>awardTokensForWindow\<close> credits 20 tokens for the window a second time and
  appends a transaction entry.
\<close>

theorem marked_window_credited_again:
  "processedWindows storeMarked (generateWindowId ''u1'' 0 3600000) \<noteq> None
   \<and> fst (awardTokensForWindow APP_CONFIG (env0\<lparr>markerReadFails := True\<rparr>) ''u1'' 0 3600000
            (Some 120) storeMarked) = Inr \<lparr>tokensAwarded = 20, totalMinutes = 120\<rparr>
   \<and> balanceOf storeMarked ''u1'' = Some 0
   \<and> balanceOf (snd (awardTokensForWindow APP_CONFIG (env0\<lparr>markerReadFails := True\<rparr>) ''u1'' 0
            3600000 (Some 120) storeMarked)) ''u1'' = Some 20
   \<and> length (transactions (snd (awardTokensForWindow APP_CONFIG (env0\<lparr>markerReadFails := True\<rparr>)
            ''u1'' 0 3600000 (Some 120) storeMarked))) = 1"
  by (simp add: awardTokensForWindow_def isWindowProcessed_def markWindowProcessed_def
        runTransaction_def awardTransaction_def Let_def resolveMinutes_def calculateTokens_def
        APP_CONFIG_def env0_def storeMarked_def storeWith_def newUser_def balanceOf_def)

subsection \<open>The reward formula\<close>

text \<open>
  Claim C6. For non-negative minutes, a window that is not yet processed, an existing
  user and a store that accepts the writes, \<open>awardTokensForWindow\<close> awards
  \<open>floor(totalMinutes / 60) * TOKENS_PER_HOUR\<close> tokens: it returns that number with the
  minutes, credits it to the balance and writes the idempotency marker of the window.
  With 10 tokens per hour, 120 minutes give 20 tokens and 45 minutes give 0 tokens; when
  the award is 0 the marker is the only thing written.
\<close>

theorem creditWindow_reward_formula:
  assumes "0 \<le> resolveMinutes env a b m"
    and "\<not> isWindowProcessed env (generateWindowId uid a b) s"
    and "users s uid = Some d"
    and "\<not> transactionFails env" and "\<not> markerWriteFails env"
  shows "calculateTokens APP_CONFIG 120 = 20 \<and> calculateTokens APP_CONFIG 45 = 0
    \<and> fst (awardTokensForWindow cfg env uid a b m s)
        = Inr \<lparr>tokensAwarded = of_int (\<lfloor>resolveMinutes env a b m / 60\<rfloor> * TOKENS_PER_HOUR cfg),
               totalMinutes = resolveMinutes env a b m\<rparr>
    \<and> balanceOf (snd (awardTokensForWindow cfg env uid a b m s)) uid
        = Some (tokensBalance d
                + of_int (\<lfloor>resolveMinutes env a b m / 60\<rfloor> * TOKENS_PER_HOUR cfg))
    \<and> processedWindows (snd (awardTokensForWindow cfg env uid a b m s))
          (generateWindowId uid a b) = Some (serverTimestamp env)
    \<and> (calculateTokens cfg (resolveMinutes env a b m) = 0 \<longrightarrow>
          snd (awardTokensForWindow cfg env uid a b m s)
          = s\<lparr>processedWindows :=
                (processedWindows s)(generateWindowId uid a b \<mapsto> serverTimestamp env)\<rparr>)"
proof -
  have c1: "calculateTokens APP_CONFIG 120 = 20"
    by (simp add: calculateTokens_def APP_CONFIG_def)
  have c2: "calculateTokens APP_CONFIG 45 = 0"
    by (simp add: calculateTokens_def APP_CONFIG_def)
  let ?t = "calculateTokens cfg (resolveMinutes env a b m)"
  have t: "?t = of_int (\<lfloor>resolveMinutes env a b m / 60\<rfloor> * TOKENS_PER_HOUR cfg)"
    by (simp add: calculateTokens_def)
  show ?thesis
  proof (cases "?t = 0")
    case True
    have r: "awardTokensForWindow cfg env uid a b m s
             = (Inr \<lparr>tokensAwarded = 0, totalMinutes = resolveMinutes env a b m\<rparr>,
                s\<lparr>processedWindows :=
                   (processedWindows s)(generateWindowId uid a b \<mapsto> serverTimestamp env)\<rparr>)"
      using True assms(2,5)
      by (simp add: awardTokensForWindow_def markWindowProcessed_def Let_def)
    have z: "of_int (\<lfloor>resolveMinutes env a b m / 60\<rfloor> * TOKENS_PER_HOUR cfg) = (0::real)"
      using True t by simp
    show ?thesis using c1 c2 r assms(3) z
      by (simp add: balanceOf_def)
  next
    case False
    have r: "awardTokensForWindow cfg env uid a b m s
             = (Inr \<lparr>tokensAwarded = ?t, totalMinutes = resolveMinutes env a b m\<rparr>,
                s\<lparr>users := (users s)(uid \<mapsto> d\<lparr>tokensBalance := tokensBalance d + ?t,
                                               updatedAt := serverTimestamp env\<rparr>),
                  transactions := transactions s @
                    [\<lparr>tx_uid = uid, tx_type = REWARD, tx_amount = ?t,
                      tx_balance = tokensBalance d + ?t, tx_timestamp = now env,
                      tx_metadata = noMetadata\<lparr>minutes := Some (resolveMinutes env a b m),
                        windowStart := Some a, windowEnd := Some b\<rparr>\<rparr>],
                  processedWindows :=
                    (processedWindows s)(generateWindowId uid a b \<mapsto> serverTimestamp env)\<rparr>)"
      using False assms(2-5)
      by (simp add: awardTokensForWindow_def markWindowProcessed_def runTransaction_def
            awardTransaction_def Let_def)
    show ?thesis using c1 c2 False
      unfolding r by (simp add: balanceOf_def t)
  qed
qed

text \<open>The formula at 120 and at 45 minutes, with the marker written in the second case.\<close>

theorem creditWindow_reward_formula_witness:
  "fst (awardTokensForWindow APP_CONFIG env0 ''u1'' 0 3600000 (Some 120) (storeWith (newUser 0)))
     = Inr \<lparr>tokensAwarded = 20, totalMinutes = 120\<rparr>
   \<and> balanceOf (snd (awardTokensForWindow APP_CONFIG env0 ''u1'' 0 3600000 (Some 120)
                       (storeWith (newUser 0)))) ''u1'' = Some 20
   \<and> fst (awardTokensForWindow APP_CONFIG env0 ''u1'' 0 3600000 (Some 45) (storeWith (newUser 0)))
     = Inr \<lparr>tokensAwarded = 0, totalMinutes = 45\<rparr>
   \<and> processedWindows (snd (awardTokensForWindow APP_CONFIG env0 ''u1'' 0 3600000 (Some 45)
                       (storeWith (newUser 0)))) (generateWindowId ''u1'' 0 3600000) = Some 1001"
proof -
  have h1: "\<not> isWindowProcessed env0 (generateWindowId ''u1'' 0 3600000) (storeWith (newUser 0))"
    by (simp add: isWindowProcessed_def storeWith_def)
  have h2: "users (storeWith (newUser 0)) ''u1'' = Some (newUser 0)"
    by (simp add: storeWith_def)
  have h3: "\<not> transactionFails env0" "\<not> markerWriteFails env0"
    by (simp_all add: env0_def)
  have m1: "(0::real) \<le> resolveMinutes env0 0 3600000 (Some 120)"
    and m2: "(0::real) \<le> resolveMinutes env0 0 3600000 (Some 45)"
    by (simp_all add: resolveMinutes_def)
  show ?thesis
    using creditWindow_reward_formula [OF m1 h1 h2 h3, of APP_CONFIG]
      creditWindow_reward_formula [OF m2 h1 h2 h3, of APP_CONFIG]
    by (simp add: resolveMinutes_def APP_CONFIG_def newUser_def env0_def)
qed

subsection \<open>Debits with an insufficient balance\<close>

text \<open>
  Claim C4. When the balance of an existing user is strictly below the amount to debit
  (the unlock cost for \<open>unlockApp\<close>, the amount for \<open>withdrawTokens\<close> and for an
  investment paid from the balance), the call returns a failure result and the store is
  left exactly as it was: the balance is unchanged, no unlock session is created and no
  transaction entry is appended.
\<close>

theorem insufficient_balance_no_debit:
  assumes "users s uid = Some d"
  shows "(tokensBalance d < of_int (UNLOCK_COST_TOKENS cfg) \<longrightarrow>
            \<not> success (fst (unlockApp cfg env uid pkg app s))
            \<and> snd (unlockApp cfg env uid pkg app s) = s)
    \<and> (tokensBalance d < amount \<longrightarrow>
            \<not> success (fst (withdrawTokens env uid amount phone s))
            \<and> snd (withdrawTokens env uid amount phone s) = s)
    \<and> (tokensBalance d < amount \<and> \<not> truthy payPhone \<longrightarrow>
            \<not> invSuccess (fst (investInMMF env uid fundId fundName amount unitPrice payPhone s))
            \<and> snd (investInMMF env uid fundId fundName amount unitPrice payPhone s) = s)"
proof -
  have u: "\<not> success (fst (unlockApp cfg env uid pkg app s))
           \<and> snd (unlockApp cfg env uid pkg app s) = s"
    if "tokensBalance d < of_int (UNLOCK_COST_TOKENS cfg)"
    using that assms
    by (simp add: unlockApp_def runTransaction_def unlockTransaction_def Let_def)
  have w: "\<not> success (fst (withdrawTokens env uid amount phone s))
           \<and> snd (withdrawTokens env uid amount phone s) = s"
    if "tokensBalance d < amount"
    using that assms
    by (simp add: withdrawTokens_def runTransaction_def withdrawTransaction_def Let_def)
  have i: "\<not> invSuccess (fst (investInMMF env uid fundId fundName amount unitPrice payPhone s))
           \<and> snd (investInMMF env uid fundId fundName amount unitPrice payPhone s) = s"
    if "tokensBalance d < amount" "\<not> truthy payPhone"
    using that assms
    by (simp add: investInMMF_def runTransaction_def investTransaction_def Let_def)
  show ?thesis using u w i by blast
qed

text \<open>
  With a balance of 15 and an unlock cost of 20 the unlock fails and reports the balance
  15; a withdrawal and an investment of 20 fail as well; the store is unchanged each time.
\<close>

theorem insufficient_balance_no_debit_witness:
  "unlockApp APP_CONFIG env0 ''u1'' ''com.x'' ''X'' (storeWith (newUser 15))
     = (\<lparr>success = False, newBalance = 15, message = InsufficientTokens 20 15\<rparr>,
        storeWith (newUser 15))
   \<and> \<not> success (fst (withdrawTokens env0 ''u1'' 20 ''254712345678'' (storeWith (newUser 15))))
   \<and> snd (withdrawTokens env0 ''u1'' 20 ''254712345678'' (storeWith (newUser 15)))
       = storeWith (newUser 15)
   \<and> \<not> invSuccess (fst (investInMMF env0 ''u1'' ''cic_mmf'' ''CIC'' 20 50 None
                            (storeWith (newUser 15))))
   \<and> snd (investInMMF env0 ''u1'' ''cic_mmf'' ''CIC'' 20 50 None (storeWith (newUser 15)))
       = storeWith (newUser 15)"
proof -
  have h: "users (storeWith (newUser 15)) ''u1'' = Some (newUser 15)"
    by (simp add: storeWith_def)
  have b: "tokensBalance (newUser 15) < of_int (UNLOCK_COST_TOKENS APP_CONFIG)"
    "tokensBalance (newUser 15) < 20" "\<not> truthy None"
    by (simp_all add: newUser_def APP_CONFIG_def truthy_def)
  have r: "fst (unlockApp APP_CONFIG env0 ''u1'' ''com.x'' ''X'' (storeWith (newUser 15)))
           = \<lparr>success = False, newBalance = 15, message = InsufficientTokens 20 15\<rparr>"
    by (simp add: unlockApp_def runTransaction_def unlockTransaction_def Let_def
          APP_CONFIG_def env0_def storeWith_def newUser_def)
  show ?thesis
    using b r
      insufficient_balance_no_debit [OF h, of APP_CONFIG env0 "''com.x''" "''X''" 20
        "''254712345678''" None "''cic_mmf''" "''CIC''" 50]
    by (simp add: prod_eq_iff)
qed

subsection \<open>Investment from the balance\<close>

text \<open>
  Claim C8. For a positive amount and a positive unit price, an investment without a
  phone number by a user whose balance covers the amount succeeds: the units are
  \<open>tokenAmount / unitPrice\<close>, the amount is debited from the balance, a transaction entry
  of type investment with amount \<open>- tokenAmount\<close> is appended, and a position with the
  fund id, the amount and the units is stored. A non-positive amount or unit price is
  rejected with the message for an invalid amount or price, and nothing is written.
\<close>

theorem invest_from_balance:
  "(0 < tokenAmount \<and> 0 < unitPrice \<and> users s uid = Some d \<and> tokenAmount \<le> tokensBalance d
     \<and> \<not> truthy phone \<and> \<not> transactionFails env \<longrightarrow>
       investInMMF env uid fundId fundName tokenAmount unitPrice phone s
       = (\<lparr>invSuccess = True, invMessage = SuccessfullyInvested tokenAmount fundName,
           investmentId = Some (length (investments s))\<rparr>,
          s\<lparr>users := (users s)(uid \<mapsto>
               d\<lparr>tokensBalance := tokensBalance d - tokenAmount,
                 mmfPreference := Some fundId, updatedAt := serverTimestamp env\<rparr>),
            investments := investments s @
              [\<lparr>inv_uid = uid, inv_mmfId = fundId, inv_mmfName = fundName,
                inv_amount = tokenAmount, inv_units = tokenAmount / unitPrice,
                inv_timestamp = now env\<rparr>],
            transactions := transactions s @
              [\<lparr>tx_uid = uid, tx_type = INVESTMENT, tx_amount = - tokenAmount,
                tx_balance = tokensBalance d - tokenAmount, tx_timestamp = now env,
                tx_metadata = noMetadata\<lparr>mmfId := Some fundId, mmfName := Some fundName,
                  phoneNumber := phone\<rparr>\<rparr>]\<rparr>))
   \<and> (tokenAmount \<le> 0 \<or> unitPrice \<le> 0 \<longrightarrow>
       \<not> invSuccess (fst (investInMMF env uid fundId fundName tokenAmount unitPrice phone s))
       \<and> invMessage (fst (investInMMF env uid fundId fundName tokenAmount unitPrice phone s))
           \<in> {InvestmentAmountMustBeGreaterThan0, InvalidUnitPrice}
       \<and> snd (investInMMF env uid fundId fundName tokenAmount unitPrice phone s) = s)"
  by (simp add: investInMMF_def runTransaction_def investTransaction_def Let_def)

text \<open>
  Investing 100 tokens at unit price 50 from a balance of 100 gives 2 units, a balance of
  0 and an entry of \<open>- 100\<close>; an amount of 0 is rejected and nothing is written.
\<close>

theorem invest_from_balance_witness:
  "investInMMF env0 ''u1'' ''cic_mmf'' ''CIC'' 100 50 None (storeWith (newUser 100))
     = (\<lparr>invSuccess = True, invMessage = SuccessfullyInvested 100 ''CIC'',
         investmentId = Some 0\<rparr>,
        (storeWith (newUser 100))
         \<lparr>users := [''u1'' \<mapsto> (newUser 0)\<lparr>mmfPreference := Some ''cic_mmf'', updatedAt := 1001\<rparr>],
          investments := [\<lparr>inv_uid = ''u1'', inv_mmfId = ''cic_mmf'', inv_mmfName = ''CIC'',
             inv_amount = 100, inv_units = 2, inv_timestamp = 1000\<rparr>],
          transactions := [\<lparr>tx_uid = ''u1'', tx_type = INVESTMENT, tx_amount = - 100,
             tx_balance = 0, tx_timestamp = 1000,
             tx_metadata = noMetadata\<lparr>mmfId := Some ''cic_mmf'', mmfName := Some ''CIC''\<rparr>\<rparr>]\<rparr>)
   \<and> \<not> invSuccess (fst (investInMMF env0 ''u1'' ''cic_mmf'' ''CIC'' 0 50 None
                            (storeWith (newUser 100))))
   \<and> snd (investInMMF env0 ''u1'' ''cic_mmf'' ''CIC'' 0 50 None (storeWith (newUser 100)))
       = storeWith (newUser 100)"
proof -
  have h: "(0::real) < 100 \<and> (0::real) < 50
      \<and> users (storeWith (newUser 100)) ''u1'' = Some (newUser 100)
      \<and> 100 \<le> tokensBalance (newUser 100) \<and> \<not> truthy None \<and> \<not> transactionFails env0"
    by (simp add: storeWith_def newUser_def env0_def truthy_def)
  have z: "(0::real) \<le> 0 \<or> (50::real) \<le> 0" by simp
  show ?thesis
    using h z
      invest_from_balance [of 100 50 "storeWith (newUser 100)" "''u1''" "newUser 100" None env0
        "''cic_mmf''" "''CIC''"]
      invest_from_balance [of 0 50 "storeWith (newUser 100)" "''u1''" "newUser 100" None env0
        "''cic_mmf''" "''CIC''"]
    by (simp add: storeWith_def newUser_def env0_def noMetadata_def)
qed

subsection \<open>The fund preference\<close>

text \<open>
  Claim C10. Every successful \<open>investInMMF\<close> sets \<open>mmfPreference\<close> of the user to
  the chosen fund id, whether the investment is paid from the balance or by a payment.
\<close>

theorem invest_sets_mmfPreference:
  "invSuccess (fst (investInMMF env uid fundId fundName tokenAmount unitPrice phone s)) \<Longrightarrow>
     map_option mmfPreference
       (users (snd (investInMMF env uid fundId fundName tokenAmount unitPrice phone s)) uid)
     = Some (Some fundId)"
  by (auto simp: investInMMF_def runTransaction_def investTransaction_def Let_def
        split: if_splits option.splits)

text \<open>Both funding paths at a concrete input.\<close>

theorem invest_sets_mmfPreference_witness:
  "invSuccess (fst (investInMMF env0 ''u1'' ''cic_mmf'' ''CIC'' 100 50 None
                      (storeWith (newUser 100))))
   \<and> map_option mmfPreference
        (users (snd (investInMMF env0 ''u1'' ''cic_mmf'' ''CIC'' 100 50 None
                       (storeWith (newUser 100)))) ''u1'') = Some (Some ''cic_mmf'')
   \<and> invSuccess (fst (investInMMF env0 ''u1'' ''cic_mmf'' ''CIC'' 100 50 (Some ''254712345678'')
                      (storeWith (newUser 0))))
   \<and> map_option mmfPreference
        (users (snd (investInMMF env0 ''u1'' ''cic_mmf'' ''CIC'' 100 50 (Some ''254712345678'')
                       (storeWith (newUser 0)))) ''u1'') = Some (Some ''cic_mmf'')"
proof -
  have a: "invSuccess (fst (investInMMF env0 ''u1'' ''cic_mmf'' ''CIC'' 100 50 None
                      (storeWith (newUser 100))))"
    by (simp add: investInMMF_def runTransaction_def investTransaction_def Let_def
          storeWith_def newUser_def env0_def truthy_def)
  have b: "invSuccess (fst (investInMMF env0 ''u1'' ''cic_mmf'' ''CIC'' 100 50
                      (Some ''254712345678'') (storeWith (newUser 0))))"
    by (simp add: investInMMF_def runTransaction_def investTransaction_def Let_def
          storeWith_def newUser_def env0_def truthy_def simulateStkPush_def)
  show ?thesis
    using a b invest_sets_mmfPreference [OF a] invest_sets_mmfPreference [OF b] by simp
qed

subsection \<open>The unlock session life cycle\<close>

text \<open>\<open>Array.from(new Set(xs))\<close> keeps every element once.\<close>

lemma foldl_insert_new_set:
  "set (foldl (\<lambda>acc x. if x \<in> set acc then acc else acc @ [x]) acc xs) = set acc \<union> set xs"
  by (induction xs arbitrary: acc) auto

lemma foldl_insert_new_distinct:
  "distinct acc \<Longrightarrow> distinct (foldl (\<lambda>acc x. if x \<in> set acc then acc else acc @ [x]) acc xs)"
  by (induction xs arbitrary: acc) auto

lemma set_arrayFromSet: "set (arrayFromSet xs) = set xs"
  by (simp add: arrayFromSet_def foldl_insert_new_set)

lemma distinct_arrayFromSet: "distinct (arrayFromSet xs)"
  by (simp add: arrayFromSet_def foldl_insert_new_distinct)

text \<open>When \<open>unlockApp\<close> reports success, and what it has written then.\<close>

lemma unlockApp_success_iff:
  assumes "users s uid = Some d"
  shows "success (fst (unlockApp cfg env uid p app s)) \<longleftrightarrow>
           of_int (UNLOCK_COST_TOKENS cfg) \<le> tokensBalance d \<and> \<not> transactionFails env
           \<and> \<not> userReadFails env \<and> \<not> (platformAndroid env \<and> nativeModuleFails env)"
  using assms
  by (auto simp: unlockApp_def runTransaction_def unlockTransaction_def Let_def
        syncLockedApps_def readLockedApps_def updateLockedApps_def)

lemma unlockApp_success_store:
  assumes "users s uid = Some d" "success (fst (unlockApp cfg env uid p app s))"
  shows "users (snd (unlockApp cfg env uid p app s)) uid
         = Some (d\<lparr>tokensBalance := tokensBalance d - of_int (UNLOCK_COST_TOKENS cfg),
                   lockedApps := filter (\<lambda>pkg. pkg \<noteq> p) (lockedApps d),
                   unlockSessions := Some (filter (\<lambda>x. now env < expiresAt x)
                       (orEmpty (unlockSessions d))
                     @ [\<lparr>packageName = p, unlockedAt = now env,
                         expiresAt = now env + UNLOCK_DURATION_MINUTES cfg * 60 * 1000\<rparr>]),
                   updatedAt := serverTimestamp env\<rparr>)
       \<and> newBalance (fst (unlockApp cfg env uid p app s))
           = tokensBalance d - of_int (UNLOCK_COST_TOKENS cfg)
       \<and> transactions (snd (unlockApp cfg env uid p app s))
           = transactions s @
             [\<lparr>tx_uid = uid, tx_type = UNLOCK, tx_amount = - of_int (UNLOCK_COST_TOKENS cfg),
               tx_balance = tokensBalance d - of_int (UNLOCK_COST_TOKENS cfg),
               tx_timestamp = now env,
               tx_metadata = noMetadata\<lparr>appPackage := Some p, appName := Some app\<rparr>\<rparr>]"
  using assms
  by (auto simp: unlockApp_def runTransaction_def unlockTransaction_def Let_def
        syncLockedApps_def readLockedApps_def updateLockedApps_def
        split: if_splits)

text \<open>What \<open>relockExpiredSessions\<close> writes when a session has expired, and when none has.\<close>

lemma relock_store:
  assumes "users s uid = Some d" "x \<in> set (orEmpty (unlockSessions d))"
    "expiresAt x \<le> now env" "\<not> userReadFails env" "\<not> userUpdateFails env"
  shows "users (snd (relockExpiredSessions env uid s)) uid
         = Some (d\<lparr>lockedApps := arrayFromSet (lockedApps d
                       @ map packageName (filter (\<lambda>y. expiresAt y \<le> now env)
                           (orEmpty (unlockSessions d)))),
                   unlockSessions := Some (filter (\<lambda>y. now env < expiresAt y)
                       (orEmpty (unlockSessions d))),
                   updatedAt := serverTimestamp env\<rparr>)"
proof -
  have "filter (\<lambda>y. expiresAt y \<le> now env) (orEmpty (unlockSessions d)) \<noteq> []"
    using assms(2,3) by (auto simp: filter_empty_conv)
  then show ?thesis
    using assms(1,4,5)
    by (simp add: relockExpiredSessions_def Let_def updateLockedApps_def)
qed

lemma relock_noop:
  assumes "users s uid = Some d" "\<forall>x \<in> set (orEmpty (unlockSessions d)). now env < expiresAt x"
  shows "relockExpiredSessions env uid s = (Inr (), s)"
proof -
  have "filter (\<lambda>y. expiresAt y \<le> now env) (orEmpty (unlockSessions d)) = []"
    using assms(2) by (auto simp: filter_empty_conv)
  then show ?thesis
    using assms(1) by (simp add: relockExpiredSessions_def Let_def)
qed

text \<open>
  Claim C5. For a user whose balance covers the unlock cost, \<open>unlockApp\<close> succeeds when
  the store and the native module accept the requests. A successful \<open>unlockApp\<close> for
  package \<open>p\<close> debits exactly the unlock cost, removes \<open>p\<close> from \<open>lockedApps\<close>, drops
  the sessions that have already expired and appends one session with \<open>unlockedAt = now\<close>
  and \<open>expiresAt = now + UNLOCK_DURATION_MINUTES * 60 * 1000\<close>. A following
  \<open>relockExpiredSessions\<close> at any time at or after \<open>expiresAt\<close>, whose read and update
  are accepted, puts \<open>p\<close> back into \<open>lockedApps\<close> without duplicates and removes the
  session; in any store it does so for every expired session; and it leaves the store as
  it is when no session has expired.
\<close>

theorem unlock_lifecycle:
  assumes "users s uid = Some d"
  shows
   "(of_int (UNLOCK_COST_TOKENS cfg) \<le> tokensBalance d \<and> \<not> transactionFails env
       \<and> \<not> userReadFails env \<and> \<not> (platformAndroid env \<and> nativeModuleFails env)
     \<longrightarrow> success (fst (unlockApp cfg env uid p app s)))
    \<and> (success (fst (unlockApp cfg env uid p app s)) \<longrightarrow>
         newBalance (fst (unlockApp cfg env uid p app s))
           = tokensBalance d - of_int (UNLOCK_COST_TOKENS cfg)
         \<and> users (snd (unlockApp cfg env uid p app s)) uid
           = Some (d\<lparr>tokensBalance := tokensBalance d - of_int (UNLOCK_COST_TOKENS cfg),
                     lockedApps := filter (\<lambda>pkg. pkg \<noteq> p) (lockedApps d),
                     unlockSessions := Some (filter (\<lambda>x. now env < expiresAt x)
                         (orEmpty (unlockSessions d))
                       @ [\<lparr>packageName = p, unlockedAt = now env,
                           expiresAt = now env + UNLOCK_DURATION_MINUTES cfg * 60 * 1000\<rparr>]),
                     updatedAt := serverTimestamp env\<rparr>)
         \<and> p \<notin> set (filter (\<lambda>pkg. pkg \<noteq> p) (lockedApps d))
         \<and> (now env + UNLOCK_DURATION_MINUTES cfg * 60 * 1000 \<le> now env'
              \<and> \<not> userReadFails env' \<and> \<not> userUpdateFails env' \<longrightarrow>
             (\<exists>d2 ss. users (snd (relockExpiredSessions env' uid
                                    (snd (unlockApp cfg env uid p app s)))) uid = Some d2
                \<and> tokensBalance d2 = tokensBalance d - of_int (UNLOCK_COST_TOKENS cfg)
                \<and> p \<in> set (lockedApps d2) \<and> distinct (lockedApps d2)
                \<and> unlockSessions d2 = Some ss
                \<and> \<lparr>packageName = p, unlockedAt = now env,
                     expiresAt = now env + UNLOCK_DURATION_MINUTES cfg * 60 * 1000\<rparr> \<notin> set ss
                \<and> (\<forall>y \<in> set ss. now env' < expiresAt y))))
    \<and> (x \<in> set (orEmpty (unlockSessions d)) \<and> expiresAt x \<le> now env
          \<and> \<not> userReadFails env \<and> \<not> userUpdateFails env \<longrightarrow>
         (\<exists>d2. users (snd (relockExpiredSessions env uid s)) uid = Some d2
            \<and> tokensBalance d2 = tokensBalance d
            \<and> packageName x \<in> set (lockedApps d2) \<and> distinct (lockedApps d2)
            \<and> set (lockedApps d2) = set (lockedApps d)
                 \<union> packageName ` {y \<in> set (orEmpty (unlockSessions d)). expiresAt y \<le> now env}
            \<and> unlockSessions d2
                 = Some (filter (\<lambda>y. now env < expiresAt y) (orEmpty (unlockSessions d)))
            \<and> x \<notin> set (filter (\<lambda>y. now env < expiresAt y) (orEmpty (unlockSessions d)))))
    \<and> ((\<forall>y \<in> set (orEmpty (unlockSessions d)). now env < expiresAt y) \<longrightarrow>
         relockExpiredSessions env uid s = (Inr (), s))"
proof -
  let ?cost = "real_of_int (UNLOCK_COST_TOKENS cfg)"
  let ?new = "\<lparr>packageName = p, unlockedAt = now env,
                 expiresAt = now env + UNLOCK_DURATION_MINUTES cfg * 60 * 1000\<rparr>"
  let ?s1 = "snd (unlockApp cfg env uid p app s)"
  let ?d1 = "d\<lparr>tokensBalance := tokensBalance d - ?cost,
                lockedApps := filter (\<lambda>pkg. pkg \<noteq> p) (lockedApps d),
                unlockSessions := Some (filter (\<lambda>x. now env < expiresAt x)
                    (orEmpty (unlockSessions d)) @ [?new]),
                updatedAt := serverTimestamp env\<rparr>"
  have A: "?cost \<le> tokensBalance d \<and> \<not> transactionFails env
       \<and> \<not> userReadFails env \<and> \<not> (platformAndroid env \<and> nativeModuleFails env)
     \<longrightarrow> success (fst (unlockApp cfg env uid p app s))"
    using unlockApp_success_iff [OF assms, of cfg env p app] by blast
  have B: "newBalance (fst (unlockApp cfg env uid p app s)) = tokensBalance d - ?cost
           \<and> users ?s1 uid = Some ?d1"
    if "success (fst (unlockApp cfg env uid p app s))"
    using unlockApp_success_store [OF assms that] by blast
  have C: "\<exists>d2 ss. users (snd (relockExpiredSessions env' uid ?s1)) uid = Some d2
                \<and> tokensBalance d2 = tokensBalance d - ?cost
                \<and> p \<in> set (lockedApps d2) \<and> distinct (lockedApps d2)
                \<and> unlockSessions d2 = Some ss \<and> ?new \<notin> set ss
                \<and> (\<forall>y \<in> set ss. now env' < expiresAt y)"
    if ok: "success (fst (unlockApp cfg env uid p app s))"
      and late: "now env + UNLOCK_DURATION_MINUTES cfg * 60 * 1000 \<le> now env'"
      and io: "\<not> userReadFails env'" "\<not> userUpdateFails env'"
  proof -
    have u1: "users ?s1 uid = Some ?d1" using B [OF ok] by blast
    have inNew: "?new \<in> set (orEmpty (unlockSessions ?d1))"
      by (simp add: orEmpty_def)
    have ex: "expiresAt ?new \<le> now env'" using late by simp
    show ?thesis
      using relock_store [OF u1 inNew ex io] late
      by (auto simp: set_arrayFromSet distinct_arrayFromSet orEmpty_def)
  qed
  have D: "\<exists>d2. users (snd (relockExpiredSessions env uid s)) uid = Some d2
            \<and> tokensBalance d2 = tokensBalance d
            \<and> packageName x \<in> set (lockedApps d2) \<and> distinct (lockedApps d2)
            \<and> set (lockedApps d2) = set (lockedApps d)
                 \<union> packageName ` {y \<in> set (orEmpty (unlockSessions d)). expiresAt y \<le> now env}
            \<and> unlockSessions d2
                 = Some (filter (\<lambda>y. now env < expiresAt y) (orEmpty (unlockSessions d)))
            \<and> x \<notin> set (filter (\<lambda>y. now env < expiresAt y) (orEmpty (unlockSessions d)))"
    if "x \<in> set (orEmpty (unlockSessions d))" "expiresAt x \<le> now env"
      "\<not> userReadFails env" "\<not> userUpdateFails env"
    using relock_store [OF assms that] that(1,2)
    by (auto simp: set_arrayFromSet distinct_arrayFromSet)
  have E: "relockExpiredSessions env uid s = (Inr (), s)"
    if "\<forall>y \<in> set (orEmpty (unlockSessions d)). now env < expiresAt y"
    using relock_noop [OF assms that] .
  have F: "p \<notin> set (filter (\<lambda>pkg. pkg \<noteq> p) (lockedApps d))" by simp
  show ?thesis using A B C D E F by blast
qed

text \<open>
  With a balance of 100, a cost of 20 and a duration of 60 minutes, unlocking \<open>com.x\<close> at
  time 1000 leaves a balance of 80, no locked package and one session that expires at
  3601000; reconciling at 3601001 restores \<open>com.x\<close> and removes the session; reconciling
  at time 1000 changes nothing.
\<close>

theorem unlock_lifecycle_witness:
  "fst (unlockApp APP_CONFIG env0 ''u1'' ''com.x'' ''X'' (storeWith userLocked))
     = \<lparr>success = True, newBalance = 80, message = UnlockedFor ''X'' 60\<rparr>
   \<and> users (snd (unlockApp APP_CONFIG env0 ''u1'' ''com.x'' ''X'' (storeWith userLocked))) ''u1''
     = Some (userLocked\<lparr>tokensBalance := 80, lockedApps := [],
               unlockSessions := Some [\<lparr>packageName = ''com.x'', unlockedAt = 1000,
                                         expiresAt = 3601000\<rparr>],
               updatedAt := 1001\<rparr>)
   \<and> users (snd (relockExpiredSessions (env0\<lparr>now := 3601001\<rparr>) ''u1''
               (snd (unlockApp APP_CONFIG env0 ''u1'' ''com.x'' ''X'' (storeWith userLocked)))))
        ''u1''
     = Some (userLocked\<lparr>tokensBalance := 80, lockedApps := [''com.x''],
               unlockSessions := Some [], updatedAt := 1001\<rparr>)
   \<and> relockExpiredSessions env0 ''u1''
        (snd (unlockApp APP_CONFIG env0 ''u1'' ''com.x'' ''X'' (storeWith userLocked)))
     = (Inr (), snd (unlockApp APP_CONFIG env0 ''u1'' ''com.x'' ''X'' (storeWith userLocked)))"
proof -
  let ?s = "storeWith userLocked"
  let ?s1 = "snd (unlockApp APP_CONFIG env0 ''u1'' ''com.x'' ''X'' ?s)"
  let ?late = "env0\<lparr>now := 3601001\<rparr>"
  let ?x = "\<lparr>packageName = ''com.x'', unlockedAt = 1000, expiresAt = 3601000\<rparr>"
  let ?d1 = "userLocked\<lparr>tokensBalance := 80, lockedApps := [],
               unlockSessions := Some [?x], updatedAt := 1001\<rparr>"
  have h: "users ?s ''u1'' = Some userLocked" by (simp add: storeWith_def)
  have pre: "of_int (UNLOCK_COST_TOKENS APP_CONFIG) \<le> tokensBalance userLocked
      \<and> \<not> transactionFails env0 \<and> \<not> userReadFails env0
      \<and> \<not> (platformAndroid env0 \<and> nativeModuleFails env0)"
    by (simp add: APP_CONFIG_def userLocked_def newUser_def env0_def)
  note T = unlock_lifecycle [OF h, of APP_CONFIG env0 "''com.x''" "''X''" ?late]
  have ok: "success (fst (unlockApp APP_CONFIG env0 ''u1'' ''com.x'' ''X'' ?s))"
    using T pre by blast
  have r: "fst (unlockApp APP_CONFIG env0 ''u1'' ''com.x'' ''X'' ?s)
           = \<lparr>success = True, newBalance = 80, message = UnlockedFor ''X'' 60\<rparr>"
    by (simp add: unlockApp_def runTransaction_def unlockTransaction_def Let_def
          syncLockedApps_def readLockedApps_def updateLockedApps_def
          APP_CONFIG_def env0_def storeWith_def userLocked_def newUser_def)
  have u1: "users ?s1 ''u1'' = Some ?d1"
    using T ok
    by (simp add: APP_CONFIG_def env0_def userLocked_def newUser_def orEmpty_def)
  have fresh: "\<forall>y \<in> set (orEmpty (unlockSessions ?d1)). now env0 < expiresAt y"
    by (simp add: orEmpty_def env0_def)
  have re: "users (snd (relockExpiredSessions ?late ''u1'' ?s1)) ''u1''
            = Some (userLocked\<lparr>tokensBalance := 80, lockedApps := [''com.x''],
                      unlockSessions := Some [], updatedAt := 1001\<rparr>)"
    using u1
    by (simp add: relockExpiredSessions_def Let_def updateLockedApps_def orEmpty_def
          arrayFromSet_def env0_def userLocked_def newUser_def)
  have noop: "relockExpiredSessions env0 ''u1'' ?s1 = (Inr (), ?s1)"
    using unlock_lifecycle [OF u1, of APP_CONFIG env0 "''com.x''" "''X''" env0 ?x] fresh
    by blast
  show ?thesis using r u1 re noop by blast
qed

subsection \<open>Every call is a ledger step\<close>

lemma ledgerStep_refl: "ledgerStep r s s"
  by (simp add: ledgerStep_def)

lemma ledgerStep_same:
  "transactions s' = transactions s \<Longrightarrow> (\<And>v. balanceOf s' v = balanceOf s v) \<Longrightarrow> ledgerStep r s s'"
  by (simp add: ledgerStep_def)

lemma ledgerStep_append:
  assumes "users s uid = Some d" and "transactions s' = transactions s @ [t]"
    and "tx_uid t = uid" and "users s' = (users s)(uid \<mapsto> d')"
    and "tokensBalance d' = tokensBalance d + ledgerEffect t"
    and "0 \<le> tokensBalance d' \<or> 0 \<le> ledgerEffect t \<or> ledgerEffect t = r"
  shows "ledgerStep r s s'"
  unfolding ledgerStep_def
  apply (rule disjI2)
  apply (rule exI [of _ t])
  apply (rule exI [of _ "tokensBalance d"])
  using assms by (auto simp: balanceOf_def)

lemma updateLockedApps_ledger:
  "transactions (snd (updateLockedApps env apps s)) = transactions s
   \<and> users (snd (updateLockedApps env apps s)) = users s"
  by (simp add: updateLockedApps_def)

lemma syncLockedApps_ledger:
  "transactions (snd (syncLockedApps env uid s)) = transactions s
   \<and> users (snd (syncLockedApps env uid s)) = users s"
  by (simp add: syncLockedApps_def updateLockedApps_ledger split: sum.splits)

lemma syncLockedApps_ledgerD:
  "syncLockedApps env uid s = (r, s2) \<Longrightarrow> transactions s2 = transactions s \<and> users s2 = users s"
  using syncLockedApps_ledger [of env uid s] by simp

lemma award_step:
  "ledgerStep (calculateTokens cfg (resolveMinutes env a b m)) s
     (snd (awardTokensForWindow cfg env uid a b m s))"
proof (cases "users s uid")
  case None
  then show ?thesis
    by (auto simp: awardTokensForWindow_def markWindowProcessed_def runTransaction_def
          awardTransaction_def Let_def balanceOf_def intro!: ledgerStep_same)
next
  case (Some d)
  let ?t = "calculateTokens cfg (resolveMinutes env a b m)"
  let ?tx = "\<lparr>tx_uid = uid, tx_type = REWARD, tx_amount = ?t,
                tx_balance = tokensBalance d + ?t, tx_timestamp = now env,
                tx_metadata = noMetadata\<lparr>minutes := Some (resolveMinutes env a b m),
                  windowStart := Some a, windowEnd := Some b\<rparr>\<rparr>"
  have eff: "ledgerEffect ?tx = ?t" by (simp add: ledgerEffect_def externallyFunded_def)
  let ?s' = "snd (awardTokensForWindow cfg env uid a b m s)"
  have "(transactions ?s' = transactions s \<and> users ?s' = users s)
      \<or> (transactions ?s' = transactions s @ [?tx]
         \<and> users ?s' = (users s)(uid \<mapsto> d\<lparr>tokensBalance := tokensBalance d + ?t,
                                            updatedAt := serverTimestamp env\<rparr>))"
    using Some
    by (simp add: awardTokensForWindow_def markWindowProcessed_def runTransaction_def
          awardTransaction_def Let_def)
  then show ?thesis
  proof (elim disjE conjE)
    assume "transactions ?s' = transactions s" "users ?s' = users s"
    then show ?thesis by (simp add: ledgerStep_def balanceOf_def)
  next
    assume credit: "transactions ?s' = transactions s @ [?tx]"
      "users ?s' = (users s)(uid \<mapsto> d\<lparr>tokensBalance := tokensBalance d + ?t,
                                         updatedAt := serverTimestamp env\<rparr>)"
    show ?thesis
      unfolding ledgerStep_def
      apply (rule disjI2)
      apply (rule exI [of _ ?tx])
      apply (rule exI [of _ "tokensBalance d"])
      using credit Some eff by (simp add: balanceOf_def)
  qed
qed

lemma unlock_step: "ledgerStep r s (snd (unlockApp cfg env uid p app s))"
proof (cases "users s uid")
  case None
  then show ?thesis
    by (simp add: unlockApp_def runTransaction_def unlockTransaction_def Let_def
          ledgerStep_refl)
next
  case (Some d)
  let ?cost = "real_of_int (UNLOCK_COST_TOKENS cfg)"
  let ?s' = "snd (unlockApp cfg env uid p app s)"
  let ?tx = "\<lparr>tx_uid = uid, tx_type = UNLOCK, tx_amount = - ?cost,
               tx_balance = tokensBalance d - ?cost, tx_timestamp = now env,
               tx_metadata = noMetadata\<lparr>appPackage := Some p, appName := Some app\<rparr>\<rparr>"
  let ?d' = "d\<lparr>tokensBalance := tokensBalance d - ?cost,
                lockedApps := filter (\<lambda>pkg. pkg \<noteq> p) (lockedApps d),
                unlockSessions := Some (filter (\<lambda>x. now env < expiresAt x)
                    (orEmpty (unlockSessions d))
                  @ [\<lparr>packageName = p, unlockedAt = now env,
                      expiresAt = now env + UNLOCK_DURATION_MINUTES cfg * 60 * 1000\<rparr>]),
                updatedAt := serverTimestamp env\<rparr>"
  have eff: "ledgerEffect ?tx = - ?cost" by (simp add: ledgerEffect_def externallyFunded_def)
  have "(transactions ?s' = transactions s \<and> users ?s' = users s)
      \<or> (?cost \<le> tokensBalance d \<and> transactions ?s' = transactions s @ [?tx]
         \<and> users ?s' = (users s)(uid \<mapsto> ?d'))"
    using Some
    by (auto simp: unlockApp_def runTransaction_def unlockTransaction_def Let_def
          split: prod.splits sum.splits dest!: syncLockedApps_ledgerD)
  then show ?thesis
  proof (elim disjE conjE)
    assume "transactions ?s' = transactions s" "users ?s' = users s"
    then show ?thesis by (simp add: ledgerStep_def balanceOf_def)
  next
    assume c: "?cost \<le> tokensBalance d" "transactions ?s' = transactions s @ [?tx]"
      "users ?s' = (users s)(uid \<mapsto> ?d')"
    show ?thesis
      by (rule ledgerStep_append [OF Some c(2) _ c(3)]) (use c(1) eff in simp_all)
  qed
qed

lemma purchase_step: "ledgerStep r s (snd (purchaseTokens env uid n phone s))"
proof (cases "users s uid")
  case None
  then show ?thesis
    by (simp add: purchaseTokens_def runTransaction_def purchaseTransaction_def Let_def
          ledgerStep_refl)
next
  case (Some d)
  let ?s' = "snd (purchaseTokens env uid n phone s)"
  let ?tx = "\<lparr>tx_uid = uid, tx_type = PURCHASE, tx_amount = n,
               tx_balance = tokensBalance d + n, tx_timestamp = now env,
               tx_metadata = noMetadata\<lparr>phoneNumber := Some phone\<rparr>\<rparr>"
  let ?d' = "d\<lparr>tokensBalance := tokensBalance d + n, updatedAt := serverTimestamp env\<rparr>"
  have eff: "ledgerEffect ?tx = n" by (simp add: ledgerEffect_def externallyFunded_def)
  have "?s' = s
      \<or> (0 < n \<and> transactions ?s' = transactions s @ [?tx]
         \<and> users ?s' = (users s)(uid \<mapsto> ?d'))"
    using Some
    by (simp add: purchaseTokens_def runTransaction_def purchaseTransaction_def Let_def)
  then show ?thesis
  proof (elim disjE conjE)
    assume "?s' = s"
    then show ?thesis by (simp add: ledgerStep_refl)
  next
    assume c: "0 < n" "transactions ?s' = transactions s @ [?tx]"
      "users ?s' = (users s)(uid \<mapsto> ?d')"
    show ?thesis
      by (rule ledgerStep_append [OF Some c(2) _ c(3)]) (use c(1) eff in simp_all)
  qed
qed

lemma withdraw_step: "ledgerStep r s (snd (withdrawTokens env uid n phone s))"
proof (cases "users s uid")
  case None
  then show ?thesis
    by (simp add: withdrawTokens_def runTransaction_def withdrawTransaction_def Let_def
          ledgerStep_refl)
next
  case (Some d)
  let ?s' = "snd (withdrawTokens env uid n phone s)"
  let ?tx = "\<lparr>tx_uid = uid, tx_type = WITHDRAWAL, tx_amount = - n,
               tx_balance = tokensBalance d - n, tx_timestamp = now env,
               tx_metadata = noMetadata\<lparr>phoneNumber := Some phone\<rparr>\<rparr>"
  let ?d' = "d\<lparr>tokensBalance := tokensBalance d - n, updatedAt := serverTimestamp env\<rparr>"
  have eff: "ledgerEffect ?tx = - n" by (simp add: ledgerEffect_def externallyFunded_def)
  have "?s' = s
      \<or> (n \<le> tokensBalance d \<and> transactions ?s' = transactions s @ [?tx]
         \<and> users ?s' = (users s)(uid \<mapsto> ?d'))"
    using Some
    by (simp add: withdrawTokens_def runTransaction_def withdrawTransaction_def Let_def)
  then show ?thesis
  proof (elim disjE conjE)
    assume "?s' = s"
    then show ?thesis by (simp add: ledgerStep_refl)
  next
    assume c: "n \<le> tokensBalance d" "transactions ?s' = transactions s @ [?tx]"
      "users ?s' = (users s)(uid \<mapsto> ?d')"
    show ?thesis
      by (rule ledgerStep_append [OF Some c(2) _ c(3)]) (use c(1) eff in simp_all)
  qed
qed

lemma invest_step: "ledgerStep r s (snd (investInMMF env uid fundId fundName n price phone s))"
proof (cases "users s uid")
  case None
  then show ?thesis
    by (simp add: investInMMF_def runTransaction_def investTransaction_def Let_def
          ledgerStep_refl)
next
  case (Some d)
  let ?s' = "snd (investInMMF env uid fundId fundName n price phone s)"
  let ?bal = "if truthy phone then tokensBalance d else tokensBalance d - n"
  let ?tx = "\<lparr>tx_uid = uid, tx_type = INVESTMENT,
               tx_amount = (if truthy phone then n else - n),
               tx_balance = ?bal, tx_timestamp = now env,
               tx_metadata = noMetadata\<lparr>mmfId := Some fundId, mmfName := Some fundName,
                 phoneNumber := phone\<rparr>\<rparr>"
  let ?d' = "d\<lparr>tokensBalance := ?bal, mmfPreference := Some fundId,
                updatedAt := serverTimestamp env\<rparr>"
  have eff: "ledgerEffect ?tx = (if truthy phone then 0 else - n)"
    by (simp add: ledgerEffect_def externallyFunded_def)
  have "?s' = s
      \<or> ((\<not> truthy phone \<longrightarrow> n \<le> tokensBalance d)
         \<and> transactions ?s' = transactions s @ [?tx]
         \<and> users ?s' = (users s)(uid \<mapsto> ?d'))"
    using Some
    by (simp add: investInMMF_def runTransaction_def investTransaction_def Let_def)
  then show ?thesis
  proof (elim disjE conjE)
    assume "?s' = s"
    then show ?thesis by (simp add: ledgerStep_refl)
  next
    assume c: "\<not> truthy phone \<longrightarrow> n \<le> tokensBalance d"
      "transactions ?s' = transactions s @ [?tx]"
      "users ?s' = (users s)(uid \<mapsto> ?d')"
    show ?thesis
      by (rule ledgerStep_append [OF Some c(2) _ c(3)]) (use c(1) eff in auto)
  qed
qed

lemma relock_step: "ledgerStep r s (snd (relockExpiredSessions env uid s))"
  by (rule ledgerStep_same)
     (auto simp: relockExpiredSessions_def Let_def updateLockedApps_def balanceOf_def
        split: option.splits)

lemma lockSetEdit_step:
  assumes "\<And>a s'. f s = Inr (a, s') \<Longrightarrow>
             transactions s' = transactions s \<and> (\<forall>v. balanceOf s' v = balanceOf s v)"
  shows "ledgerStep r s (snd (lockSetEdit env uid f s))"
proof (rule ledgerStep_same)
  show "transactions (snd (lockSetEdit env uid f s)) = transactions s"
    using assms
    by (auto simp: lockSetEdit_def runTransaction_def syncLockedApps_ledger
          split: sum.splits prod.splits)
  show "balanceOf (snd (lockSetEdit env uid f s)) v = balanceOf s v" for v
    using assms
    by (auto simp: lockSetEdit_def runTransaction_def syncLockedApps_ledger balanceOf_def
          split: sum.splits prod.splits)
qed

lemma lockTransaction_ledger:
  "lockTransaction env uid p s = Inr (a, s') \<Longrightarrow>
     transactions s' = transactions s \<and> (\<forall>v. balanceOf s' v = balanceOf s v)"
  by (auto simp: lockTransaction_def balanceOf_def split: option.splits if_splits)

lemma rewriteLockedApps_ledger:
  "rewriteLockedApps env uid f s = Inr (a, s') \<Longrightarrow>
     transactions s' = transactions s \<and> (\<forall>v. balanceOf s' v = balanceOf s v)"
  by (auto simp: rewriteLockedApps_def balanceOf_def split: option.splits)

lemma exec_step: "ledgerStep (calculateTokens cfg (rewardMinutes (env, c))) s (exec cfg (env, c) s)"
proof (cases c)
  case (AwardTokensForWindow uid a b m)
  then show ?thesis by (simp add: award_step)
next
  case (AwardDailyTokens uid)
  then show ?thesis by (simp add: awardDailyTokens_def Let_def award_step)
next
  case (AwardHourlyTokens uid)
  then show ?thesis by (simp add: awardHourlyTokens_def Let_def award_step)
next
  case (PurchaseTokens uid n phone)
  then show ?thesis by (simp add: purchase_step)
next
  case (UnlockApp uid p app)
  then show ?thesis by (simp add: unlock_step)
next
  case (RelockExpiredSessions uid)
  then show ?thesis by (simp add: relock_step)
next
  case (LockApp uid p)
  show ?thesis
    unfolding LockApp
    by (simp add: lockApp_def) (rule lockSetEdit_step, erule lockTransaction_ledger)
next
  case (UnlockAppPermanently uid p)
  show ?thesis
    unfolding UnlockAppPermanently
    by (simp add: unlockAppPermanently_def) (rule lockSetEdit_step, erule rewriteLockedApps_ledger)
next
  case (LockMultipleApps uid ps)
  show ?thesis
    unfolding LockMultipleApps
    by (simp add: lockMultipleApps_def) (rule lockSetEdit_step, erule rewriteLockedApps_ledger)
next
  case (UnlockMultipleAppsPermanently uid ps)
  show ?thesis
    unfolding UnlockMultipleAppsPermanently
    by (simp add: unlockMultipleAppsPermanently_def) (rule lockSetEdit_step, erule rewriteLockedApps_ledger)
next
  case (InvestInMMF uid fundId fundName n price phone)
  then show ?thesis by (simp add: invest_step)
next
  case (WithdrawTokens uid n phone)
  then show ?thesis by (simp add: withdraw_step)
qed






lemma calculateTokens_nonneg:
  assumes "0 \<le> TOKENS_PER_HOUR cfg" "0 \<le> m"
  shows "0 \<le> calculateTokens cfg m"
proof -
  have "0 \<le> \<lfloor>m / 60\<rfloor>" using assms(2) by simp
  then have "0 \<le> \<lfloor>m / 60\<rfloor> * TOKENS_PER_HOUR cfg"
    using assms(1) by (rule mult_nonneg_nonneg)
  then have "(0::real) \<le> of_int (\<lfloor>m / 60\<rfloor> * TOKENS_PER_HOUR cfg)"
    by (simp only: of_int_0_le_iff)
  then show ?thesis by (simp add: calculateTokens_def)
qed

text \<open>What a ledger step preserves.\<close>

lemma ledgerStep_cases:
  assumes "ledgerStep r s s'"
  obtains (same) "transactions s' = transactions s" "\<And>v. balanceOf s' v = balanceOf s v"
  | (append) t c where "transactions s' = transactions s @ [t]"
      "balanceOf s (tx_uid t) = Some c"
      "balanceOf s' (tx_uid t) = Some (c + ledgerEffect t)"
      "\<And>v. v \<noteq> tx_uid t \<Longrightarrow> balanceOf s' v = balanceOf s v"
      "0 \<le> c + ledgerEffect t \<or> 0 \<le> ledgerEffect t \<or> ledgerEffect t = r"
  using assms unfolding ledgerStep_def by blast

lemma ledgerStep_nonneg:
  assumes "ledgerStep r s s'" "0 \<le> r" "balanceOf s v = Some b" "0 \<le> b"
  shows "\<exists>b'. balanceOf s' v = Some b' \<and> 0 \<le> b'"
  using assms(1)
proof (cases rule: ledgerStep_cases)
  case same
  then show ?thesis using assms(3,4) by simp
next
  case (append t c)
  show ?thesis
  proof (cases "v = tx_uid t")
    case True
    then have "c = b" using append(2) assms(3) by simp
    then have "0 \<le> c + ledgerEffect t" using append(5) assms(2,4) by auto
    then show ?thesis using True append(3) by simp
  next
    case False
    then show ?thesis using append(4) assms(3,4) by simp
  qed
qed


lemma execAll_Nil: "execAll cfg [] s = s"
  by (simp add: execAll_def)

lemma execAll_Cons: "execAll cfg (c # cs) s = execAll cfg cs (exec cfg c s)"
  by (simp add: execAll_def)

lemma execAll_nonneg:
  assumes "0 \<le> TOKENS_PER_HOUR cfg"
  shows "\<forall>c \<in> set calls. 0 \<le> rewardMinutes c \<Longrightarrow> balanceOf s v = Some b \<Longrightarrow> 0 \<le> b \<Longrightarrow>
           \<exists>b'. balanceOf (execAll cfg calls s) v = Some b' \<and> 0 \<le> b'"
proof (induction calls arbitrary: s b)
  case Nil
  then show ?case by (simp add: execAll_Nil)
next
  case (Cons c cs)
  obtain env k where c: "c = (env, k)" by (cases c)
  have r: "0 \<le> calculateTokens cfg (rewardMinutes (env, k))"
    using Cons.prems(1) c assms by (simp add: calculateTokens_nonneg)
  obtain b1 where b1: "balanceOf (exec cfg c s) v = Some b1" "0 \<le> b1"
    using ledgerStep_nonneg [OF exec_step r Cons.prems(2,3)] c by blast
  show ?case
    using Cons.IH [OF _ b1] Cons.prems(1) by (simp add: execAll_Cons)
qed


subsection \<open>The balance is never negative\<close>

text \<open>
  With finite numbers, a non-negative \<open>TOKENS_PER_HOUR\<close> and rewards computed from
  non-negative minutes, no sequence of calls takes a non-negative balance below zero: a
  reward is the only call that can.
\<close>

lemma balance_never_negative:
  assumes "0 \<le> TOKENS_PER_HOUR cfg"
    and "\<forall>c \<in> set calls. 0 \<le> rewardMinutes c"
    and "balanceOf s uid = Some b" and "0 \<le> b"
  shows "\<exists>b'. balanceOf (execAll cfg (take n calls) s) uid = Some b' \<and> 0 \<le> b'"
proof -
  have "\<forall>c \<in> set (take n calls). 0 \<le> rewardMinutes c"
    using assms(2) by (meson in_set_takeD)
  then show ?thesis
    using execAll_nonneg [OF assms(1) _ assms(3,4)] by blast
qed

text \<open>
  Claim C2: the balance is never negative after an operation. The code breaks it:
  \<open>awardTokensForWindow\<close> called with \<open>- 60\<close> manual minutes computes \<open>- 10\<close> tokens,
  which the test \<open>tokensAwarded === 0\<close> lets through, and credits them to a balance of 0.
\<close>

theorem negative_minutes_debit_balance:
  "balanceOf (storeWith (newUser 0)) ''u1'' = Some 0
   \<and> balanceOf (execAll APP_CONFIG [(env0, AwardTokensForWindow ''u1'' 0 3600000 (Some (- 60)))]
        (storeWith (newUser 0))) ''u1'' = Some (- 10)"
proof -
  have f: "\<lfloor>- 1 :: real\<rfloor> = - 1"
    using floor_of_int [of "- 1", where ?'a = real] by simp
  show ?thesis
    by (simp add: execAll_def awardTokensForWindow_def isWindowProcessed_def
          markWindowProcessed_def runTransaction_def awardTransaction_def Let_def
          resolveMinutes_def calculateTokens_def APP_CONFIG_def env0_def storeWith_def
          newUser_def balanceOf_def f)
qed

subsection \<open>Conservation\<close>




subsection \<open>Failures of the ledger transaction\<close>





subsection \<open>Concurrent calls on one user\<close>

text \<open>\<open>relockExpiredSessions\<close> is its two requests run back to back.\<close>

lemma relock_as_two_requests:
  "relockExpiredSessions env uid s = relockUpdate env uid (relockGet env uid s) s"
  by (simp add: relockExpiredSessions_def relockUpdate_def relockGet_def Let_def
        split: option.splits)

text \<open>\<open>unlockApp\<close> is its three requests run back to back.\<close>

lemma unlockApp_as_three_requests:
  "(case_prod (unlockStep cfg env uid p app) ^^ 3) (AtTransaction, s)
     = (Finished (fst (unlockApp cfg env uid p app s)), snd (unlockApp cfg env uid p app s))"
  by (simp add: numeral_3_eq_3 unlockApp_def syncLockedApps_def Let_def
        split: prod.splits sum.splits)

text \<open>
  Two concurrent \<open>unlockApp\<close> calls, their requests interleaved in any order, on a
  balance that covers one unlock cost and no more: when both have finished, exactly one
  has succeeded, the other has been refused for insufficient tokens, and the cost has
  been debited once.
\<close>

lemma raceInv_sym: "raceInv cost b0 uid ta tb s = raceInv cost b0 uid tb ta s"
  by (auto simp: raceInv_def split: option.splits)

lemma unlockStep_raceInv:
  assumes inv: "raceInv (of_int (UNLOCK_COST_TOKENS cfg)) b0 uid ta tb s"
    and ff: "faultFree env"
    and b0: "of_int (UNLOCK_COST_TOKENS cfg) \<le> b0" "b0 < 2 * of_int (UNLOCK_COST_TOKENS cfg)"
  shows "raceInv (of_int (UNLOCK_COST_TOKENS cfg)) b0 uid
           (fst (unlockStep cfg env uid p app ta s)) tb
           (snd (unlockStep cfg env uid p app ta s))"
proof (cases ta)
  case AtTransaction
  show ?thesis
  proof (cases "threadResult tb")
    case None
    then show ?thesis
      using inv ff b0 AtTransaction
      by (auto simp: raceInv_def faultFree_def balanceOf_def runTransaction_def
            unlockTransaction_def Let_def paidOnce_def)
  next
    case (Some rb)
    then show ?thesis
      using inv ff b0 AtTransaction
      by (auto simp: raceInv_def faultFree_def balanceOf_def runTransaction_def
            unlockTransaction_def Let_def paidOnce_def refusedOnce_def)
  qed
next
  case (AtRead r)
  then show ?thesis
    using inv ff
    by (auto simp: raceInv_def faultFree_def readLockedApps_def split: option.splits)
next
  case (AtPush r apps)
  then show ?thesis
    using inv ff
    by (auto simp: raceInv_def faultFree_def updateLockedApps_def balanceOf_def
          split: option.splits)
next
  case (Finished r)
  then show ?thesis using inv by simp
qed

lemma runSchedule_raceInv:
  assumes ff: "faultFree envA" "faultFree envB"
    and b0: "of_int (UNLOCK_COST_TOKENS cfg) \<le> b0" "b0 < 2 * of_int (UNLOCK_COST_TOKENS cfg)"
  shows "raceInv (of_int (UNLOCK_COST_TOKENS cfg)) b0 uid ta tb s \<Longrightarrow>
         runSchedule (unlockStep cfg envA uid pA appA) (unlockStep cfg envB uid pB appB)
           sched (ta, tb, s) = (ta', tb', s') \<Longrightarrow>
         raceInv (of_int (UNLOCK_COST_TOKENS cfg)) b0 uid ta' tb' s'"
proof (induction sched arbitrary: ta tb s)
  case Nil
  then show ?case by simp
next
  case (Cons x sched)
  show ?case
  proof (cases x)
    case True
    let ?r = "unlockStep cfg envA uid pA appA ta s"
    have "raceInv (of_int (UNLOCK_COST_TOKENS cfg)) b0 uid (fst ?r) tb (snd ?r)"
      by (rule unlockStep_raceInv [OF Cons.prems(1) ff(1) b0])
    moreover have "runSchedule (unlockStep cfg envA uid pA appA)
        (unlockStep cfg envB uid pB appB) sched (fst ?r, tb, snd ?r) = (ta', tb', s')"
      using Cons.prems(2) True by (simp add: case_prod_beta)
    ultimately show ?thesis by (rule Cons.IH)
  next
    case False
    let ?r = "unlockStep cfg envB uid pB appB tb s"
    have "raceInv (of_int (UNLOCK_COST_TOKENS cfg)) b0 uid tb ta s"
      using Cons.prems(1) by (simp add: raceInv_sym)
    then have "raceInv (of_int (UNLOCK_COST_TOKENS cfg)) b0 uid (fst ?r) ta (snd ?r)"
      by (rule unlockStep_raceInv [OF _ ff(2) b0])
    then have "raceInv (of_int (UNLOCK_COST_TOKENS cfg)) b0 uid ta (fst ?r) (snd ?r)"
      by (simp add: raceInv_sym)
    moreover have "runSchedule (unlockStep cfg envA uid pA appA)
        (unlockStep cfg envB uid pB appB) sched (ta, fst ?r, snd ?r) = (ta', tb', s')"
      using Cons.prems(2) False by (simp add: case_prod_beta)
    ultimately show ?thesis by (rule Cons.IH)
  qed
qed

lemma concurrent_unlocks_one_success:
  assumes "faultFree envA" "faultFree envB"
    and "balanceOf s uid = Some b0"
    and "of_int (UNLOCK_COST_TOKENS cfg) \<le> b0" "b0 < 2 * of_int (UNLOCK_COST_TOKENS cfg)"
    and "runSchedule (unlockStep cfg envA uid pA appA) (unlockStep cfg envB uid pB appB)
           sched (AtTransaction, AtTransaction, s) = (Finished ra, Finished rb, s')"
  shows "success ra \<noteq> success rb
    \<and> balanceOf s' uid = Some (b0 - of_int (UNLOCK_COST_TOKENS cfg))
    \<and> (\<not> success ra \<longrightarrow>
          message ra = InsufficientTokens (of_int (UNLOCK_COST_TOKENS cfg))
                         (b0 - of_int (UNLOCK_COST_TOKENS cfg)))
    \<and> (\<not> success rb \<longrightarrow>
          message rb = InsufficientTokens (of_int (UNLOCK_COST_TOKENS cfg))
                         (b0 - of_int (UNLOCK_COST_TOKENS cfg)))"
proof -
  have "raceInv (of_int (UNLOCK_COST_TOKENS cfg)) b0 uid AtTransaction AtTransaction s"
    using assms(3) by (simp add: raceInv_def)
  then have "raceInv (of_int (UNLOCK_COST_TOKENS cfg)) b0 uid (Finished ra) (Finished rb) s'"
    using runSchedule_raceInv [OF assms(1,2,4,5)] assms(6) by blast
  then show ?thesis
    by (auto simp: raceInv_def paidOnce_def refusedOnce_def)
qed

text \<open>One interleaving on a balance of 30: the first transaction pays, the second is refused.\<close>

lemma concurrent_unlocks_example:
  "(case runSchedule (unlockStep APP_CONFIG env0 ''u1'' ''com.x'' ''X'')
           (unlockStep APP_CONFIG env0 ''u1'' ''com.y'' ''Y'')
           [True, False, False, True, True, False]
           (AtTransaction, AtTransaction, storeWith (newUser 30)) of
      (ta, tb, s') \<Rightarrow> (ta, tb, balanceOf s' ''u1''))
   = (Finished \<lparr>success = True, newBalance = 10, message = UnlockedFor ''X'' 60\<rparr>,
      Finished \<lparr>success = False, newBalance = 10, message = InsufficientTokens 20 10\<rparr>,
      Some 10)"
  by (simp add: runTransaction_def unlockTransaction_def Let_def readLockedApps_def
        updateLockedApps_def orEmpty_def balanceOf_def APP_CONFIG_def env0_def
        storeWith_def newUser_def)

text \<open>
  Claim C7: all mutations of one user's record are serialized. The code breaks it in
  \<open>relockExpiredSessions\<close>, which reads the document and updates it outside any
  transaction. Here the document holds 100 tokens, \<open>com.y\<close> locked and an expired
  session for \<open>com.x\<close>. The reconcile reads the document; an \<open>unlockApp\<close> for \<open>com.y\<close>
  commits (balance 80, \<open>com.y\<close> unlocked, a session for \<open>com.y\<close>); the reconcile then
  sends its update, computed from what it had read. The record ends with balance 80, no
  session and \<open>com.y\<close> locked: the paid session is erased. Neither order of the two
  calls one after the other gives this record.
\<close>

theorem reconcile_loses_update:
  "relockExpiredSessions env0 ''u1'' (storeWith userRace)
     = relockUpdate env0 ''u1'' (relockGet env0 ''u1'' (storeWith userRace)) (storeWith userRace)
   \<and> fst (unlockApp APP_CONFIG env0 ''u1'' ''com.y'' ''Y'' (storeWith userRace))
       = \<lparr>success = True, newBalance = 80, message = UnlockedFor ''Y'' 60\<rparr>
   \<and> users (snd (relockUpdate env0 ''u1'' (relockGet env0 ''u1'' (storeWith userRace))
               (snd (unlockApp APP_CONFIG env0 ''u1'' ''com.y'' ''Y'' (storeWith userRace)))))
        ''u1''
       = Some (userRace\<lparr>tokensBalance := 80, lockedApps := [''com.y'', ''com.x''],
                 unlockSessions := Some [], updatedAt := 1001\<rparr>)
   \<and> users (snd (unlockApp APP_CONFIG env0 ''u1'' ''com.y'' ''Y''
               (snd (relockExpiredSessions env0 ''u1'' (storeWith userRace))))) ''u1''
       = Some (userRace\<lparr>tokensBalance := 80, lockedApps := [''com.x''],
                 unlockSessions := Some [\<lparr>packageName = ''com.y'', unlockedAt = 1000,
                                           expiresAt = 3601000\<rparr>],
                 updatedAt := 1001\<rparr>)
   \<and> users (snd (relockExpiredSessions env0 ''u1''
               (snd (unlockApp APP_CONFIG env0 ''u1'' ''com.y'' ''Y'' (storeWith userRace)))))
        ''u1''
       = Some (userRace\<lparr>tokensBalance := 80, lockedApps := [],
                 unlockSessions := Some [\<lparr>packageName = ''com.y'', unlockedAt = 1000,
                                           expiresAt = 3601000\<rparr>],
                 updatedAt := 1001\<rparr>)"
proof -
  let ?s = "storeWith userRace"
  have split: "relockExpiredSessions env0 ''u1'' ?s
               = relockUpdate env0 ''u1'' (relockGet env0 ''u1'' ?s) ?s"
    by (rule relock_as_two_requests)
  have snapshot: "relockGet env0 ''u1'' ?s = Inr (Some userRace)"
    by (simp add: relockGet_def env0_def storeWith_def)
  have paid: "unlockApp APP_CONFIG env0 ''u1'' ''com.y'' ''Y'' ?s
      = (\<lparr>success = True, newBalance = 80, message = UnlockedFor ''Y'' 60\<rparr>,
         ?s\<lparr>users := [''u1'' \<mapsto> userRace\<lparr>tokensBalance := 80, lockedApps := [],
                   unlockSessions := Some [\<lparr>packageName = ''com.y'', unlockedAt = 1000,
                                             expiresAt = 3601000\<rparr>],
                   updatedAt := 1001\<rparr>],
            transactions := [\<lparr>tx_uid = ''u1'', tx_type = UNLOCK, tx_amount = - 20,
                tx_balance = 80, tx_timestamp = 1000,
                tx_metadata = noMetadata\<lparr>appPackage := Some ''com.y'',
                                          appName := Some ''Y''\<rparr>\<rparr>],
            nativeLockedApps := []\<rparr>)"
    by (simp add: unlockApp_def runTransaction_def unlockTransaction_def Let_def
          syncLockedApps_def readLockedApps_def updateLockedApps_def orEmpty_def
          APP_CONFIG_def env0_def storeWith_def userRace_def newUser_def)
  have relocked: "snd (relockExpiredSessions env0 ''u1'' ?s)
      = ?s\<lparr>users := [''u1'' \<mapsto> userRace\<lparr>lockedApps := [''com.y'', ''com.x''],
                  unlockSessions := Some [], updatedAt := 1001\<rparr>],
           nativeLockedApps := [''com.y'', ''com.x'']\<rparr>"
    by (simp add: relockExpiredSessions_def Let_def updateLockedApps_def orEmpty_def
          arrayFromSet_def env0_def storeWith_def userRace_def newUser_def)
  have lost: "users (snd (relockUpdate env0 ''u1'' (relockGet env0 ''u1'' ?s)
                (snd (unlockApp APP_CONFIG env0 ''u1'' ''com.y'' ''Y'' ?s)))) ''u1''
       = Some (userRace\<lparr>tokensBalance := 80, lockedApps := [''com.y'', ''com.x''],
                 unlockSessions := Some [], updatedAt := 1001\<rparr>)"
    unfolding snapshot paid
    by (simp add: relockUpdate_def Let_def updateLockedApps_def orEmpty_def arrayFromSet_def
          env0_def storeWith_def userRace_def newUser_def)
  have serial1: "users (snd (unlockApp APP_CONFIG env0 ''u1'' ''com.y'' ''Y''
               (snd (relockExpiredSessions env0 ''u1'' ?s)))) ''u1''
       = Some (userRace\<lparr>tokensBalance := 80, lockedApps := [''com.x''],
                 unlockSessions := Some [\<lparr>packageName = ''com.y'', unlockedAt = 1000,
                                           expiresAt = 3601000\<rparr>],
                 updatedAt := 1001\<rparr>)"
    unfolding relocked
    by (simp add: unlockApp_def runTransaction_def unlockTransaction_def Let_def
          syncLockedApps_def readLockedApps_def updateLockedApps_def orEmpty_def
          APP_CONFIG_def env0_def storeWith_def userRace_def newUser_def)
  have serial2: "users (snd (relockExpiredSessions env0 ''u1''
               (snd (unlockApp APP_CONFIG env0 ''u1'' ''com.y'' ''Y'' ?s)))) ''u1''
       = Some (userRace\<lparr>tokensBalance := 80, lockedApps := [],
                 unlockSessions := Some [\<lparr>packageName = ''com.y'', unlockedAt = 1000,
                                           expiresAt = 3601000\<rparr>],
                 updatedAt := 1001\<rparr>)"
    unfolding paid
    by (simp add: relockExpiredSessions_def Let_def updateLockedApps_def orEmpty_def
          env0_def storeWith_def userRace_def newUser_def)
  show ?thesis using split paid lost serial1 serial2 by simp
qed

end
